theory Spec2Isabelle
  imports Main "HOL-Library.Char_ord" "HOL-Library.List_Lexorder" "HOL-Library.Sublist"
    "HOL-Library.FSet"
begin

section \<open>Python string operations used by bot.py\<close>

text \<open>
  Strings are lists of 8-bit characters. The model covers ASCII text: a character is a
  word character (\<^verbatim>\<open>\w\<close>) when it is an ASCII letter, digit or underscore, and white
  space when \<^verbatim>\<open>str.isspace\<close> holds of it in the ASCII range. Case-insensitive matching
  folds the ASCII letters.
\<close>

definition is_space :: "char \<Rightarrow> bool" where
  "is_space c = (let n = (of_char c :: nat) in (9 \<le> n \<and> n \<le> 13) \<or> (28 \<le> n \<and> n \<le> 32))"

definition is_digit :: "char \<Rightarrow> bool" where
  "is_digit c = (let n = (of_char c :: nat) in 48 \<le> n \<and> n \<le> 57)"

definition is_upper :: "char \<Rightarrow> bool" where
  "is_upper c = (let n = (of_char c :: nat) in 65 \<le> n \<and> n \<le> 90)"

definition is_lower :: "char \<Rightarrow> bool" where
  "is_lower c = (let n = (of_char c :: nat) in 97 \<le> n \<and> n \<le> 122)"

definition is_word_char :: "char \<Rightarrow> bool" where
  "is_word_char c = (is_digit c \<or> is_upper c \<or> is_lower c \<or> c = CHR ''_'')"

definition lower_char :: "char \<Rightarrow> char" where
  "lower_char c = (if is_upper c then char_of (of_char c + (32 :: nat)) else c)"

text \<open>\<^verbatim>\<open>s.strip()\<close>\<close>

definition py_strip :: "string \<Rightarrow> string" where
  "py_strip s = rev (dropWhile is_space (rev (dropWhile is_space s)))"

text \<open>\<^verbatim>\<open>sub in s\<close>\<close>

fun py_contains :: "string \<Rightarrow> string \<Rightarrow> bool" where
  "py_contains sub [] = (sub = [])"
| "py_contains sub (c # cs) = (prefix sub (c # cs) \<or> py_contains sub cs)"

text \<open>\<^verbatim>\<open>s.find(sub)\<close>: the index of the first occurrence, or -1.\<close>

fun py_find :: "string \<Rightarrow> string \<Rightarrow> int" where
  "py_find sub [] = (if sub = [] then 0 else - 1)"
| "py_find sub (c # cs) =
     (if prefix sub (c # cs) then 0
      else (let r = py_find sub cs in if r < 0 then - 1 else r + 1))"

text \<open>\<^verbatim>\<open>s.split(sep)\<close> for a separator of one character.\<close>

fun py_split :: "char \<Rightarrow> string \<Rightarrow> string list" where
  "py_split sep [] = [[]]"
| "py_split sep (c # cs) =
     (if c = sep then [] # py_split sep cs
      else (case py_split sep cs of [] \<Rightarrow> [[c]] | a # rest \<Rightarrow> (c # a) # rest))"

text \<open>\<^verbatim>\<open>s.split(sep, 1)\<close> for a non-empty separator: one part when the separator does
  not occur, otherwise the text before and the text after its first occurrence.\<close>

fun py_split1 :: "string \<Rightarrow> string \<Rightarrow> string list" where
  "py_split1 sep [] = [[]]"
| "py_split1 sep (c # cs) =
     (if prefix sep (c # cs) then [[], drop (length sep) (c # cs)]
      else (case py_split1 sep cs of [] \<Rightarrow> [[c]] | a # rest \<Rightarrow> (c # a) # rest))"

text \<open>\<^verbatim>\<open>s[i:]\<close> for an index that is not negative.\<close>

definition py_slice_from :: "int \<Rightarrow> string \<Rightarrow> string" where
  "py_slice_from i s = drop (nat i) s"

text \<open>\<^verbatim>\<open>int(s)\<close> for a string of ASCII characters. The white space that \<^verbatim>\<open>int\<close> skips
  around the number is tab, newline, vertical tab, form feed, carriage return and space
  only: the separators 0x1C to 0x1F, which \<^verbatim>\<open>strip\<close> removes, make \<^verbatim>\<open>int\<close> fail. A sign
  may lead, single underscores may separate digits, and a number of more than 4300 digits
  (the interpreter's default limit) is refused. \<^verbatim>\<open>None\<close> stands for \<^verbatim>\<open>ValueError\<close>.\<close>

definition is_int_space :: "char \<Rightarrow> bool" where
  "is_int_space c = (let n = (of_char c :: nat) in (9 \<le> n \<and> n \<le> 13) \<or> n = 32)"

definition max_str_digits :: nat where
  "max_str_digits = 4300"

fun valid_digits :: "string \<Rightarrow> bool" where
  "valid_digits [] = False"
| "valid_digits [c] = is_digit c"
| "valid_digits (c # d # r) =
     (is_digit c \<and> (if d = CHR ''_'' then valid_digits r else valid_digits (d # r)))"

definition digit_value :: "char \<Rightarrow> nat" where
  "digit_value c = of_char c - 48"

definition digits_value :: "string \<Rightarrow> nat" where
  "digits_value ds = foldl (\<lambda>acc c. 10 * acc + digit_value c) 0 ds"

definition py_int :: "string \<Rightarrow> int option" where
  "py_int s =
     (let t = rev (dropWhile is_int_space (rev (dropWhile is_int_space s)));
          neg = (t \<noteq> [] \<and> hd t = CHR ''-'');
          d = (if t \<noteq> [] \<and> (hd t = CHR ''-'' \<or> hd t = CHR ''+'') then tl t else t);
          digits = filter (\<lambda>c. c \<noteq> CHR ''_'') d
      in if valid_digits d \<and> length digits \<le> max_str_digits
         then Some ((if neg then - 1 else 1) * int (digits_value digits))
         else None)"

section \<open>The event extractor: parse_death_messages\<close>

text \<open>The vocabulary, in the order of the source. The eighth phrase is written in the
  source as an ordinary (not raw) string with a backslash before each bracket, so the
  phrase itself contains the two backslashes.\<close>

definition death_keywords :: "string list" where
  "death_keywords =
    [''was pricked to death'',
     ''walked into a cactus'',
     ''drowned'',
     ''died from dehydration'',
     ''experienced kinetic energy'',
     ''blew up'',
     ''was blown up'',
     ''was killed by '' @ [CHR 0x5C] @ ''[Intentional Game Design'' @ [CHR 0x5C] @ '']'',
     ''hit the ground too hard'',
     ''fell from a high place'',
     ''fell off a ladder'',
     ''fell off some vines'',
     ''fell off some weeping vines'',
     ''fell off some twisting vines'',
     ''fell off scaffolding'',
     ''fell while climbing'',
     ''was doomed to fall'',
     ''was impaled on a stalagmite'',
     ''was squashed by a falling anvil'',
     ''was squashed by a falling block'',
     ''was skewered by a falling stalactite'',
     ''went up in flames'',
     ''walked into fire'',
     ''burned to death'',
     ''was burned to a crisp'',
     ''went off with a bang'',
     ''tried to swim in lava'',
     ''was struck by lightning'',
     ''discovered the floor was lava'',
     ''walked into the danger zone'',
     ''was killed by magic'',
     ''froze to death'',
     ''was frozen to death'',
     ''was slain by'',
     ''was stung to death'',
     ''was obliterated by a sonically-charged shriek'',
     ''was smashed by'',
     ''was shot by'',
     ''was pummeled by'',
     ''was fireballed by'',
     ''was shot by a skull from'',
     ''starved to death'',
     ''suffocated in a wall'',
     ''was squished too much'',
     ''was squashed by'',
     ''left the confines of this world'',
     ''was poked to death by a sweet berry bush'',
     ''was killed while trying to hurt'',
     ''was impaled by'',
     ''fell out of the world'',
     ''didn'' @ [CHR 0x27] @ ''t want to live in the same world as'',
     ''withered away'',
     ''died'',
     ''was killed'',
     ''was roasted in dragon'',
     ''was sniped by'',
     ''was spitballed by'']"

text \<open>
  The compiled pattern is
  \<^verbatim>\<open>\[.*?\]: (\w+) (kw1|kw2|...)\<close> with \<^verbatim>\<open>re.IGNORECASE\<close>, every phrase escaped, and
  the code only asks whether \<^verbatim>\<open>search\<close> finds a match. The matcher below follows the
  pattern from left to right: an opening bracket anywhere in the line, then as few
  characters other than a newline as needed up to \<^verbatim>\<open>]: \<close>, a non-empty run of word
  characters, one space, and one of the phrases, letters compared without case.
\<close>

definition match_keyword :: "string \<Rightarrow> string \<Rightarrow> bool" where
  "match_keyword kw s =
     (length kw \<le> length s \<and> map lower_char (take (length kw) s) = map lower_char kw)"

definition match_keywords :: "string \<Rightarrow> bool" where
  "match_keywords s = list_ex (\<lambda>kw. match_keyword kw s) death_keywords"

definition match_name :: "string \<Rightarrow> bool" where
  "match_name s =
     (let name = takeWhile is_word_char s; rest = dropWhile is_word_char s
      in name \<noteq> [] \<and> (case rest of [] \<Rightarrow> False | c # r \<Rightarrow> c = CHR '' '' \<and> match_keywords r))"

fun match_close :: "string \<Rightarrow> bool" where
  "match_close [] = False"
| "match_close (c # cs) =
     ((prefix '']: '' (c # cs) \<and> match_name (drop 3 (c # cs)))
      \<or> (c \<noteq> CHR 0x0A \<and> match_close cs))"

fun death_pattern_search :: "string \<Rightarrow> bool" where
  "death_pattern_search [] = False"
| "death_pattern_search (c # cs) = ((c = CHR ''['' \<and> match_close cs) \<or> death_pattern_search cs)"

text \<open>The loop body of parse_death_messages, for one line and the list built so far.\<close>

definition parse_line :: "string list \<Rightarrow> string \<Rightarrow> string list" where
  "parse_line death_messages line =
     (if death_pattern_search line then
        (let msg_start = py_find '']: '' line + 3 in
         if msg_start > 3 then
           (let death_msg = py_strip (py_slice_from msg_start line) in
            if death_msg \<noteq> [] \<and> death_msg \<notin> set death_messages
            then death_messages @ [death_msg] else death_messages)
         else death_messages)
      else death_messages)"

definition parse_death_messages :: "string list \<Rightarrow> string list" where
  "parse_death_messages lines = foldl parse_line [] lines"

section \<open>Exceptions and log output\<close>

text \<open>An exception is a value: its class, as far as the code tells classes apart, and
  its text. A log line is a severity and a message.\<close>

datatype exn_class = ValueError | FileNotFoundError | OtherException

datatype exn = Exn exn_class string

fun exn_text :: "exn \<Rightarrow> string" where
  "exn_text (Exn k msg) = msg"

datatype level = INFO | WARNING | ERROR

type_synonym log = "(level \<times> string) list"

text \<open>\<^verbatim>\<open>str(n)\<close> for an integer.\<close>

fun str_nat :: "nat \<Rightarrow> string" where
  "str_nat n =
     (if n < 10 then [''0123456789'' ! n] else str_nat (n div 10) @ [''0123456789'' ! (n mod 10)])"

declare str_nat.simps [simp del]

definition py_str :: "int \<Rightarrow> string" where
  "py_str i = (if i < 0 then CHR ''-'' # str_nat (nat (- i)) else str_nat (nat i))"

section \<open>Configuration and its validation\<close>

text \<open>The module-level settings, as \<^verbatim>\<open>os.getenv\<close> leaves them: a setting read without a
  default may be absent, one read with a default is always a string.\<close>

record config =
  TOKEN :: "string option"
  CHANNEL_ID :: "string option"
  RCON_HOST :: "string option"
  RCON_PORT :: string
  RCON_PASSWORD :: "string option"
  POLL_SECONDS :: string
  NOTIFY_LOGOUT :: bool
  LOG_FILE_PATH :: string
  SFTP_HOST :: string
  SFTP_PORT :: string
  SFTP_USERNAME :: string
  SFTP_PASSWORD :: string
  SFTP_LOG_PATH :: string

text \<open>\<^verbatim>\<open>not X\<close> for a setting that is \<^verbatim>\<open>None\<close> or a string.\<close>

definition unset :: "string option \<Rightarrow> bool" where
  "unset v = (case v of None \<Rightarrow> True | Some s \<Rightarrow> s = [])"

text \<open>The checks of validate_configuration in the order of the source, each taking the
  list of errors collected so far and giving it back, extended when the check fails.\<close>

definition check_token :: "config \<Rightarrow> string list \<Rightarrow> string list" where
  "check_token cfg errors =
     (if unset (TOKEN cfg) then errors @ [''DISCORD_TOKEN is not set''] else errors)"

definition check_channel :: "config \<Rightarrow> string list \<Rightarrow> string list" where
  "check_channel cfg errors =
     (case CHANNEL_ID cfg of
        None \<Rightarrow> errors @ [''DISCORD_CHANNEL_ID is not set'']
      | Some s \<Rightarrow>
          if s = [] then errors @ [''DISCORD_CHANNEL_ID is not set'']
          else (case py_int s of
                  None \<Rightarrow> errors @ [''DISCORD_CHANNEL_ID must be a valid integer'']
                | Some i \<Rightarrow> errors))"

definition check_host :: "config \<Rightarrow> string list \<Rightarrow> string list" where
  "check_host cfg errors =
     (if unset (RCON_HOST cfg) then errors @ [''RCON_HOST is not set''] else errors)"

definition check_password :: "config \<Rightarrow> string list \<Rightarrow> string list" where
  "check_password cfg errors =
     (if unset (RCON_PASSWORD cfg) then errors @ [''RCON_PASSWORD is not set''] else errors)"

definition check_port :: "config \<Rightarrow> string list \<Rightarrow> string list" where
  "check_port cfg errors =
     (case py_int (RCON_PORT cfg) of
        None \<Rightarrow> errors @ [''RCON_PORT must be a valid integer'']
      | Some port \<Rightarrow>
          if port < 1 \<or> port > 65535
          then errors @ [''RCON_PORT must be between 1 and 65535'']
          else errors)"

text \<open>The last check also gives the warning about a low poll interval.\<close>

definition check_poll :: "config \<Rightarrow> string list \<Rightarrow> string list \<times> log" where
  "check_poll cfg errors =
     (case py_int (POLL_SECONDS cfg) of
        None \<Rightarrow> (errors @ [''POLL_SECONDS must be a valid integer''], [])
      | Some poll \<Rightarrow>
          if poll < 1 then (errors @ [''POLL_SECONDS must be at least 1''], [])
          else if poll < 3
          then (errors, [(WARNING, ''POLL_SECONDS is very low (< 3). Consider increasing to reduce server load.'')])
          else (errors, []))"

definition validation_checks :: "config \<Rightarrow> string list \<times> log" where
  "validation_checks cfg =
     check_poll cfg (check_port cfg (check_password cfg (check_host cfg
       (check_channel cfg (check_token cfg [])))))"

definition config_errors :: "config \<Rightarrow> string list" where
  "config_errors cfg = fst (validation_checks cfg)"

definition validate_configuration :: "config \<Rightarrow> bool \<times> log" where
  "validate_configuration cfg =
     (let (errors, warnings) = validation_checks cfg in
      if errors \<noteq> [] then
        (False,
         warnings @ [(ERROR, ''Configuration validation failed:'')]
         @ map (\<lambda>error. (ERROR, ''  [ERROR] '' @ error)) errors
         @ [(ERROR, CHR 0x0A # ''Please check your .env file and ensure all required variables are set.'')])
      else (True, warnings @ [(INFO, ''[OK] Configuration validation passed'')]))"

text \<open>The guard at the start of the script: a configuration that does not validate ends
  the process with exit status 1 before anything is connected.\<close>

datatype startup = Exit nat | Start_bot

definition main_guard :: "config \<Rightarrow> startup \<times> log" where
  "main_guard cfg =
     (let (valid, l) = validate_configuration cfg in
      if \<not> valid
      then (Exit 1, l @ [(ERROR, CHR 0x0A # ''[ERROR] Bot startup aborted due to configuration errors.'')])
      else (Start_bot, l))"

text \<open>What the configuration can violate, with the message reported for each.\<close>

datatype violation =
    Token_missing | Channel_missing | Channel_not_integer | Host_missing | Password_missing
  | Port_not_integer | Port_out_of_range | Poll_not_integer | Poll_too_low

fun violation_message :: "violation \<Rightarrow> string" where
  "violation_message Token_missing = ''DISCORD_TOKEN is not set''"
| "violation_message Channel_missing = ''DISCORD_CHANNEL_ID is not set''"
| "violation_message Channel_not_integer = ''DISCORD_CHANNEL_ID must be a valid integer''"
| "violation_message Host_missing = ''RCON_HOST is not set''"
| "violation_message Password_missing = ''RCON_PASSWORD is not set''"
| "violation_message Port_not_integer = ''RCON_PORT must be a valid integer''"
| "violation_message Port_out_of_range = ''RCON_PORT must be between 1 and 65535''"
| "violation_message Poll_not_integer = ''POLL_SECONDS must be a valid integer''"
| "violation_message Poll_too_low = ''POLL_SECONDS must be at least 1''"

fun violation_present :: "config \<Rightarrow> violation \<Rightarrow> bool" where
  "violation_present cfg Token_missing = (TOKEN cfg = None \<or> TOKEN cfg = Some [])"
| "violation_present cfg Channel_missing = (CHANNEL_ID cfg = None \<or> CHANNEL_ID cfg = Some [])"
| "violation_present cfg Channel_not_integer =
     (case CHANNEL_ID cfg of None \<Rightarrow> False | Some s \<Rightarrow> s \<noteq> [] \<and> py_int s = None)"
| "violation_present cfg Host_missing = (RCON_HOST cfg = None \<or> RCON_HOST cfg = Some [])"
| "violation_present cfg Password_missing = (RCON_PASSWORD cfg = None \<or> RCON_PASSWORD cfg = Some [])"
| "violation_present cfg Port_not_integer = (py_int (RCON_PORT cfg) = None)"
| "violation_present cfg Port_out_of_range =
     (case py_int (RCON_PORT cfg) of None \<Rightarrow> False | Some port \<Rightarrow> port < 1 \<or> 65535 < port)"
| "violation_present cfg Poll_not_integer = (py_int (POLL_SECONDS cfg) = None)"
| "violation_present cfg Poll_too_low =
     (case py_int (POLL_SECONDS cfg) of None \<Rightarrow> False | Some poll \<Rightarrow> poll < 1)"

definition all_violations :: "violation list" where
  "all_violations =
     [Token_missing, Channel_missing, Channel_not_integer, Host_missing, Password_missing,
      Port_not_integer, Port_out_of_range, Poll_not_integer, Poll_too_low]"

section \<open>The command channel: rcon_list_players\<close>

text \<open>The second argument is what the exchange with the server gives: the reply to the
  \<^verbatim>\<open>list\<close> command, or the exception of a failed connection or command. The port is
  converted inside the \<^verbatim>\<open>try\<close>, before anything is sent.\<close>

definition rcon_list_players :: "config \<Rightarrow> exn + string \<Rightarrow> (exn + string fset) \<times> log" where
  "rcon_list_players cfg exchange =
     (case (case py_int (RCON_PORT cfg) of
              None \<Rightarrow> Inl (Exn ValueError ''invalid literal for int() with base 10'')
            | Some port \<Rightarrow> exchange) of
        Inl e \<Rightarrow> (Inl e, [(ERROR, ''RCON error: '' @ exn_text e)])
      | Inr resp \<Rightarrow>
          if \<not> py_contains ''online:'' resp
          then (Inr {||}, [(WARNING, ''Unexpected RCON response format: '' @ resp)])
          else (let parts = py_split1 ''online:'' resp in
                if length parts < 2 then (Inr {||}, [])
                else (let names_part = py_strip (parts ! 1) in
                      if names_part = [] then (Inr {||}, [])
                      else (let names = map py_strip (filter (\<lambda>n. py_strip n \<noteq> [])
                                                  (py_split CHR '','' names_part))
                            in (Inr (fset_of_list names), [])))))"

section \<open>Program state and the outside world\<close>

text \<open>The module-level variables that change while the bot runs, together with the
  contents of the position file \<^verbatim>\<open>.log_position\<close> (\<open>None\<close> while the file does not exist),
  the counter of poll_loop and whether the Discord client has been closed. The field
  \<open>sftp_client\<close> tells whether a session handle is held (\<^verbatim>\<open>sftp_client is not None\<close>).\<close>

record bot_state =
  last_online :: "string fset"
  log_file_position :: int
  sftp_client :: bool
  position_file :: "string option"
  consecutive_errors :: nat
  client_closed :: bool

text \<open>What the file system and the file-transfer server answer during one call of
  check_log_for_deaths. An operation that can raise has its exception as a possible
  answer; \<open>sftp_read\<close> and \<open>local_read\<close> give the bytes of the whole log file, or the
  exception raised by opening, seeking or reading.\<close>

record log_env =
  position_read_error :: "exn option"
  position_write_error :: "exn option"
  sftp_probe_error :: "exn option"
  sftp_connect_error :: "exn option"
  sftp_stat :: "exn + nat"
  sftp_read :: "exn + string"
  sftp_close_error :: "exn option"
  local_exists :: bool
  local_getsize :: "exn + nat"
  local_read :: "exn + string"

section \<open>The persisted cursor: load_log_position and save_log_position\<close>

definition load_log_position :: "log_env \<Rightarrow> bot_state \<Rightarrow> int \<times> log" where
  "load_log_position env st =
     (case position_file st of
        None \<Rightarrow> (0, [])
      | Some content \<Rightarrow>
          (case (case position_read_error env of
                   Some e \<Rightarrow> Inl e
                 | None \<Rightarrow>
                     (case py_int (py_strip content) of
                        None \<Rightarrow> Inl (Exn ValueError ''invalid literal for int() with base 10'')
                      | Some i \<Rightarrow> Inr i)) of
             Inl e \<Rightarrow> (0, [(WARNING, ''[WARNING] Could not load log position: '' @ exn_text e)])
           | Inr i \<Rightarrow> (i, [])))"

definition save_log_position :: "int \<Rightarrow> log_env \<Rightarrow> bot_state \<Rightarrow> bot_state \<times> log" where
  "save_log_position position env st =
     (case position_write_error env of
        Some e \<Rightarrow> (st, [(ERROR, ''[ERROR] Could not save log position: '' @ exn_text e)])
      | None \<Rightarrow> (st\<lparr>position_file := Some (py_str position)\<rparr>, []))"

section \<open>The file-transfer session: get_sftp_connection\<close>

text \<open>The result tells whether a session handle is returned. A held session is probed;
  when the probe fails it is dropped and a new one is opened. The port is converted inside
  the \<^verbatim>\<open>try\<close> of the connection attempt.\<close>

definition get_sftp_connection :: "config \<Rightarrow> log_env \<Rightarrow> bot_state \<Rightarrow> bool \<times> bot_state \<times> log" where
  "get_sftp_connection cfg env st =
     (if SFTP_HOST cfg = [] \<or> SFTP_USERNAME cfg = [] \<or> SFTP_PASSWORD cfg = [] then (False, st, [])
      else if sftp_client st \<and> sftp_probe_error env = None then (True, st, [])
      else
        (case (case py_int (SFTP_PORT cfg) of
                 None \<Rightarrow> Some (Exn ValueError ''invalid literal for int() with base 10'')
               | Some port \<Rightarrow> sftp_connect_error env) of
           None \<Rightarrow>
             (True, st\<lparr>sftp_client := True\<rparr>,
              [(INFO, ''[OK] Connected to SFTP server: '' @ SFTP_HOST cfg @ '':'' @ SFTP_PORT cfg)])
         | Some e \<Rightarrow>
             (False, st\<lparr>sftp_client := False\<rparr>,
              [(ERROR, ''[ERROR] SFTP connection failed: '' @ exn_text e)])))"

section \<open>The log tailer: check_log_for_deaths\<close>

text \<open>Reading a local text file: \<^verbatim>\<open>\r\n\<close> and \<^verbatim>\<open>\r\<close> arrive as \<^verbatim>\<open>\n\<close>, and
  \<^verbatim>\<open>readlines\<close> cuts after every newline, keeping it.\<close>

fun universal_newlines :: "string \<Rightarrow> string" where
  "universal_newlines [] = []"
| "universal_newlines [c] = [if c = CHR 0x0D then CHR 0x0A else c]"
| "universal_newlines (c # d # r) =
     (if c = CHR 0x0D
      then CHR 0x0A # (if d = CHR 0x0A then universal_newlines r else universal_newlines (d # r))
      else c # universal_newlines (d # r))"

fun keep_ends :: "string \<Rightarrow> string list" where
  "keep_ends [] = []"
| "keep_ends (c # cs) =
     (if c = CHR 0x0A then [c] # keep_ends cs
      else (case keep_ends cs of [] \<Rightarrow> [[c]] | l # ls \<Rightarrow> (c # l) # ls))"

definition py_readlines :: "string \<Rightarrow> string list" where
  "py_readlines bytes = keep_ends (universal_newlines bytes)"

text \<open>How a block of statements ends: it runs to its end, it returns a value, or it
  raises.\<close>

datatype 'a flow = Completed | Returned 'a | Raised exn

text \<open>The inner \<^verbatim>\<open>try\<close> of the remote branch, entered with a session. It gives how the
  block ended, the value of \<^verbatim>\<open>death_messages\<close> at that point, the state and the log.
  A negative offset makes the read raise.\<close>

definition sftp_tail :: "config \<Rightarrow> log_env \<Rightarrow> bot_state \<Rightarrow> string list flow \<times> string list \<times> bot_state \<times> log" where
  "sftp_tail cfg env st =
     (case sftp_stat env of
        Inl e \<Rightarrow> (Raised e, [], st, [])
      | Inr st_size \<Rightarrow>
          (let file_size = int st_size;
               rotated = (log_file_position st > file_size);
               st1 = (if rotated then st\<lparr>log_file_position := 0\<rparr> else st);
               l1 = (if rotated then [(INFO, ''[INFO] Log file rotated, resetting position'')] else [])
           in if log_file_position st1 < file_size then
                (case (if log_file_position st1 < 0
                       then Inl (Exn OtherException ''negative offset'') else sftp_read env) of
                   Inl e \<Rightarrow> (Raised e, [], st1, l1)
                 | Inr bytes \<Rightarrow>
                     (let new_content = take (nat (file_size - log_file_position st1))
                                             (drop (nat (log_file_position st1)) bytes);
                          st2 = st1\<lparr>log_file_position := file_size\<rparr>;
                          (st3, l2) = save_log_position (log_file_position st2) env st2;
                          new_lines = py_split (CHR 0x0A) new_content;
                          death_messages = parse_death_messages new_lines
                      in (case sftp_close_error env of
                            Some e \<Rightarrow> (Raised e, death_messages, st3, l1 @ l2)
                          | None \<Rightarrow> (Completed, death_messages, st3, l1 @ l2))))
              else (Completed, [], st1, l1)))"

text \<open>The remote branch: no session means an empty result; \<^verbatim>\<open>FileNotFoundError\<close> from
  the inner block is answered with an empty result, any other exception passes on.\<close>

definition sftp_branch :: "config \<Rightarrow> log_env \<Rightarrow> bot_state \<Rightarrow> string list flow \<times> string list \<times> bot_state \<times> log" where
  "sftp_branch cfg env st =
     (let (sftp, st1, l1) = get_sftp_connection cfg env st in
      if \<not> sftp then (Returned [], [], st1, l1)
      else (case sftp_tail cfg env st1 of
              (Raised (Exn FileNotFoundError msg), death_messages, st2, l2) \<Rightarrow>
                (Returned [], death_messages, st2,
                 l1 @ l2 @ [(WARNING, ''[WARNING] SFTP log file not found: '' @ SFTP_LOG_PATH cfg)])
            | (fl, death_messages, st2, l2) \<Rightarrow> (fl, death_messages, st2, l1 @ l2)))"

text \<open>The local branch. \<^verbatim>\<open>tell\<close> after \<^verbatim>\<open>readlines\<close> is the end of the file, or the
  offset of the seek when that lies beyond it. A negative offset makes the seek raise.\<close>

definition local_branch :: "config \<Rightarrow> log_env \<Rightarrow> bot_state \<Rightarrow> string list flow \<times> string list \<times> bot_state \<times> log" where
  "local_branch cfg env st =
     (if \<not> local_exists env then (Returned [], [], st, [])
      else (case local_getsize env of
              Inl e \<Rightarrow> (Raised e, [], st, [])
            | Inr st_size \<Rightarrow>
                (let file_size = int st_size;
                     rotated = (log_file_position st > file_size);
                     st1 = (if rotated then st\<lparr>log_file_position := 0\<rparr> else st);
                     l1 = (if rotated then [(INFO, ''[INFO] Log file rotated, resetting position'')] else [])
                 in (case (if log_file_position st1 < 0
                           then Inl (Exn ValueError ''negative seek position'') else local_read env) of
                       Inl e \<Rightarrow> (Raised e, [], st1, l1)
                     | Inr bytes \<Rightarrow>
                         (let new_lines = py_readlines (drop (nat (log_file_position st1)) bytes);
                              st2 = st1\<lparr>log_file_position := max (log_file_position st1) (int (length bytes))\<rparr>;
                              (st3, l2) = save_log_position (log_file_position st2) env st2;
                              death_messages = parse_death_messages new_lines
                          in (Completed, death_messages, st3, l1 @ l2))))))"

text \<open>The statements before the \<^verbatim>\<open>try\<close>: whenever the position in memory is 0 it is
  replaced by the saved one.\<close>

definition resume_position :: "log_env \<Rightarrow> bot_state \<Rightarrow> bot_state \<times> log" where
  "resume_position env st =
     (if log_file_position st = 0 then
        (let (p, l) = load_log_position env st;
             st1 = st\<lparr>log_file_position := p\<rparr>
         in (st1, l @ (if log_file_position st1 > 0
                       then [(INFO, ''[INFO] Resumed from saved log position: '' @ py_str (log_file_position st1))]
                       else [])))
      else (st, []))"

definition use_sftp :: "config \<Rightarrow> bool" where
  "use_sftp cfg = (SFTP_HOST cfg \<noteq> [] \<and> SFTP_USERNAME cfg \<noteq> [] \<and> SFTP_LOG_PATH cfg \<noteq> [])"

text \<open>The body of the outer \<^verbatim>\<open>try\<close>.\<close>

definition check_log_body :: "config \<Rightarrow> log_env \<Rightarrow> bot_state \<Rightarrow> string list flow \<times> string list \<times> bot_state \<times> log" where
  "check_log_body cfg env st =
     (if use_sftp cfg then sftp_branch cfg env st else local_branch cfg env st)"

text \<open>The whole function: \<open>Inr\<close> is the list it returns, \<open>Inl\<close> an exception that leaves
  it.\<close>

definition check_log_for_deaths :: "config \<Rightarrow> log_env \<Rightarrow> bot_state \<Rightarrow> (exn + string list) \<times> bot_state \<times> log" where
  "check_log_for_deaths cfg env st =
     (let (st1, l1) = resume_position env st in
      if \<not> use_sftp cfg \<and> LOG_FILE_PATH cfg = [] then (Inr [], st1, l1)
      else (case check_log_body cfg env st1 of
              (Returned r, death_messages, st2, l2) \<Rightarrow> (Inr r, st2, l1 @ l2)
            | (Raised e, death_messages, st2, l2) \<Rightarrow>
                (Inr death_messages, st2,
                 l1 @ l2 @ [(ERROR, ''[ERROR] Error reading log file: '' @ exn_text e)])
            | (Completed, death_messages, st2, l2) \<Rightarrow> (Inr death_messages, st2, l1 @ l2)))"

section \<open>The reconciliation loop: poll_loop\<close>

text \<open>What the outside world answers during one pass of the loop: the exchange with the
  game server, the exception (if any) of sending each message to the channel, and the
  answers to the log tailer.\<close>

record tick_env =
  rcon_exchange :: "exn + string"
  send_error :: "string \<Rightarrow> exn option"
  tail_env :: log_env

definition max_consecutive_errors :: nat where
  "max_consecutive_errors = 5"

text \<open>One \<^verbatim>\<open>try: await channel.send(message) ... except\<close>: the message handed to the
  channel and the line logged.\<close>

definition notify :: "(string \<Rightarrow> exn option) \<Rightarrow> string \<Rightarrow> string \<Rightarrow> string \<Rightarrow> string list \<times> log" where
  "notify send_err message done failed =
     ([message],
      (case send_err message of
         None \<Rightarrow> [(INFO, done)]
       | Some e \<Rightarrow> [(ERROR, failed @ exn_text e)]))"

definition notify_joined :: "(string \<Rightarrow> exn option) \<Rightarrow> string \<Rightarrow> string list \<times> log" where
  "notify_joined send_err player =
     notify send_err (''**'' @ player @ ''** joined the server'')
       (''[JOIN] '' @ player @ '' joined the server'') ''Failed to send Discord message: ''"

definition notify_left :: "(string \<Rightarrow> exn option) \<Rightarrow> string \<Rightarrow> string list \<times> log" where
  "notify_left send_err player =
     notify send_err (''**'' @ player @ ''** left the server'')
       (''[LEAVE] '' @ player @ '' left the server'') ''Failed to send Discord message: ''"

definition notify_death :: "(string \<Rightarrow> exn option) \<Rightarrow> string \<Rightarrow> string list \<times> log" where
  "notify_death send_err death_msg =
     notify send_err (''[DEATH] '' @ death_msg)
       (''[DEATH] '' @ death_msg) ''Failed to send Discord death message: ''"

text \<open>A \<^verbatim>\<open>for\<close> loop over the items, in order.\<close>

definition for_each :: "('a \<Rightarrow> string list \<times> log) \<Rightarrow> 'a list \<Rightarrow> string list \<times> log" where
  "for_each body items = (concat (map (\<lambda>x. fst (body x)) items), concat (map (\<lambda>x. snd (body x)) items))"

text \<open>The two differences of one pass.\<close>

definition joined_of :: "string fset \<Rightarrow> string fset \<Rightarrow> string fset" where
  "joined_of current previous = current |-| previous"

definition left_of :: "string fset \<Rightarrow> string fset \<Rightarrow> string fset" where
  "left_of current previous = previous |-| current"

text \<open>The handler of the loop's \<^verbatim>\<open>except\<close>: it counts, logs, and at the threshold closes
  the client and returns. The flag tells whether poll_loop returns.\<close>

definition poll_error :: "exn \<Rightarrow> bot_state \<Rightarrow> bool \<times> bot_state \<times> log" where
  "poll_error e st =
     (let st1 = st\<lparr>consecutive_errors := consecutive_errors st + 1\<rparr>;
          l1 = [(ERROR, ''Poll error ('' @ py_str (int (consecutive_errors st1)) @ ''/''
                        @ py_str (int max_consecutive_errors) @ ''): '' @ exn_text e)]
      in if consecutive_errors st1 \<ge> max_consecutive_errors then
           (True, st1\<lparr>client_closed := True\<rparr>,
            l1 @ [(ERROR, ''[ERROR] Too many consecutive errors ('' @ py_str (int max_consecutive_errors)
                          @ ''). Shutting down.''),
                  (ERROR, ''Please check your RCON configuration and server status.'')])
         else (False, st1, l1))"

text \<open>One pass of the \<^verbatim>\<open>while\<close> body, up to the sleep: whether poll_loop returns, the
  messages handed to the channel in order, the new state and the log.\<close>

definition poll_tick :: "config \<Rightarrow> tick_env \<Rightarrow> bot_state \<Rightarrow> bool \<times> string list \<times> bot_state \<times> log" where
  "poll_tick cfg env st =
     (case rcon_list_players cfg (rcon_exchange env) of
        (Inl e, l0) \<Rightarrow>
          (let (stop, st1, l1) = poll_error e st in (stop, [], st1, l0 @ l1))
      | (Inr current, l0) \<Rightarrow>
          (let st1 = st\<lparr>consecutive_errors := 0\<rparr>;
               joined = joined_of current (last_online st1);
               (sends1, l1) = for_each (notify_joined (send_error env)) (sorted_list_of_fset joined);
               (sends2, l2) =
                  (if NOTIFY_LOGOUT cfg
                   then for_each (notify_left (send_error env))
                          (sorted_list_of_fset (left_of current (last_online st1)))
                   else ([], []));
               (deaths, st2, l3) = check_log_for_deaths cfg (tail_env env) st1
           in (case deaths of
                 Inl e \<Rightarrow>
                   (let (stop, st3, l4) = poll_error e st2
                    in (stop, sends1 @ sends2, st3, l0 @ l1 @ l2 @ l3 @ l4))
               | Inr death_messages \<Rightarrow>
                   (let (sends3, l4) = for_each (notify_death (send_error env)) death_messages;
                        st3 = st2\<lparr>last_online := current\<rparr>
                    in (False, sends1 @ sends2 @ sends3, st3, l0 @ l1 @ l2 @ l3 @ l4)))))"

text \<open>The \<^verbatim>\<open>while not client.is_closed()\<close> loop, run against the answers of the outside
  world for a finite number of passes; it stops early when the client is closed or the
  handler returns.\<close>

fun poll_loop_run :: "config \<Rightarrow> tick_env list \<Rightarrow> bot_state \<Rightarrow> string list \<times> bot_state \<times> log" where
  "poll_loop_run cfg [] st = ([], st, [])"
| "poll_loop_run cfg (env # envs) st =
     (if client_closed st then ([], st, [])
      else (let (stop, sends, st1, l1) = poll_tick cfg env st in
            if stop then (sends, st1, l1)
            else (let (sends', st2, l2) = poll_loop_run cfg envs st1
                  in (sends @ sends', st2, l1 @ l2))))"

text \<open>\<^verbatim>\<open>sep.join(items)\<close>\<close>

fun py_join :: "string \<Rightarrow> string list \<Rightarrow> string" where
  "py_join sep [] = []"
| "py_join sep [x] = x"
| "py_join sep (x # y # r) = x @ sep @ py_join sep (y # r)"

text \<open>poll_loop from its start: without a channel the client is closed at once; otherwise
  the previous set is seeded by one query (empty when it fails), the counter starts at 0
  and the loop runs.\<close>

definition poll_loop :: "config \<Rightarrow> string option \<Rightarrow> exn + string \<Rightarrow> tick_env list \<Rightarrow> bot_state \<Rightarrow> string list \<times> bot_state \<times> log" where
  "poll_loop cfg channel exchange0 envs st =
     (case channel of
        None \<Rightarrow>
          ([], st\<lparr>client_closed := True\<rparr>,
           [(ERROR, ''[ERROR] Could not find Discord channel with ID: '' @ (case CHANNEL_ID cfg of None \<Rightarrow> ''None'' | Some c \<Rightarrow> c)),
            (ERROR, ''Please verify the channel ID and bot permissions.'')])
      | Some channel_name \<Rightarrow>
          (let l0 = [(INFO, ''[OK] Connected to Discord channel: #'' @ channel_name),
                     (INFO, ''[INFO] Polling every '' @ POLL_SECONDS cfg @ '' seconds''),
                     (INFO, ''[INFO] Logout notifications: '' @ (if NOTIFY_LOGOUT cfg then ''ENABLED'' else ''DISABLED''))];
               (st1, l1) =
                 (case rcon_list_players cfg exchange0 of
                    (Inr players, l) \<Rightarrow>
                      (st\<lparr>last_online := players\<rparr>,
                       l @ (if players \<noteq> {||}
                            then [(INFO, ''[INFO] Currently online: '' @ py_join '', '' (sorted_list_of_fset players))]
                            else [(INFO, ''[INFO] No players currently online'')]))
                  | (Inl e, l) \<Rightarrow>
                      (st\<lparr>last_online := {||}\<rparr>,
                       l @ [(WARNING, ''[WARNING] Could not query initial player list: '' @ exn_text e),
                            (INFO, ''Will retry on next poll...'')]));
               l2 = [(INFO, ''[OK] Bot is now monitoring the Minecraft server!'' @ [CHR 0x0A])];
               (sends, st2, l3) = poll_loop_run cfg envs (st1\<lparr>consecutive_errors := 0\<rparr>)
           in (sends, st2, l0 @ l1 @ l2 @ l3)))"

section \<open>Notions used to state the properties\<close>

text \<open>A pass of the loop whose participant query raises.\<close>

definition query_fails :: "config \<Rightarrow> tick_env \<Rightarrow> bool" where
  "query_fails cfg env =
     (case fst (rcon_list_players cfg (rcon_exchange env)) of Inl e \<Rightarrow> True | Inr players \<Rightarrow> False)"


text \<open>What is reported for one kind of violation.\<close>

definition report :: "config \<Rightarrow> violation \<Rightarrow> string list" where
  "report cfg v = (if violation_present cfg v then [violation_message v] else [])"

text \<open>The part of the state that belongs to poll_loop.\<close>

definition loop_fields :: "bot_state \<Rightarrow> string fset \<times> nat \<times> bool" where
  "loop_fields st = (last_online st, consecutive_errors st, client_closed st)"

section \<open>Example values\<close>

text \<open>A configuration, answers of the outside world and a state on which the properties
  below are exercised.\<close>

definition example_config :: config where
  "example_config =
     \<lparr>TOKEN = Some ''token'', CHANNEL_ID = Some ''1234'', RCON_HOST = Some ''mc.example.org'',
      RCON_PORT = ''25575'', RCON_PASSWORD = Some ''secret'', POLL_SECONDS = ''5'',
      NOTIFY_LOGOUT = True, LOG_FILE_PATH = [],
      SFTP_HOST = ''sftp.example.org'', SFTP_PORT = ''22'', SFTP_USERNAME = ''user'',
      SFTP_PASSWORD = ''pw'', SFTP_LOG_PATH = ''/logs/latest.log''\<rparr>"

definition quiet_env :: log_env where
  "quiet_env =
     \<lparr>position_read_error = None, position_write_error = None, sftp_probe_error = None,
      sftp_connect_error = None, sftp_stat = Inr 0, sftp_read = Inr [],
      sftp_close_error = None, local_exists = False, local_getsize = Inr 0,
      local_read = Inr []\<rparr>"

definition initial_state :: bot_state where
  "initial_state =
     \<lparr>last_online = {||}, log_file_position = 0, sftp_client = False, position_file = None,
      consecutive_errors = 0, client_closed = False\<rparr>"


definition reply_tick :: "string \<Rightarrow> tick_env" where
  "reply_tick resp = \<lparr>rcon_exchange = Inr resp, send_error = (\<lambda>message. None), tail_env = quiet_env\<rparr>"

definition raising_env :: log_env where
  "raising_env = quiet_env\<lparr>sftp_stat := Inl (Exn OtherException ''Socket is closed'')\<rparr>"

text \<open>The reply as the specification reads it: everything after the first occurrence of
  the marker, cut at the commas, each piece trimmed, the empty pieces dropped.\<close>

fun after_marker :: "string \<Rightarrow> string \<Rightarrow> string" where
  "after_marker m [] = []"
| "after_marker m (c # cs) =
     (if prefix m (c # cs) then drop (length m) (c # cs) else after_marker m cs)"

definition names_of_reply :: "string \<Rightarrow> string fset" where
  "names_of_reply resp =
     fset_of_list (filter (\<lambda>t. t \<noteq> [])
       (map py_strip (py_split CHR '','' (after_marker ''online:'' resp))))"

text \<open>Trimming at the right end only.\<close>

definition rstrip :: "string \<Rightarrow> string" where
  "rstrip s = rev (dropWhile is_space (rev s))"



text \<open>A configuration whose port is not an integer literal.\<close>

definition unparsable_port_config :: config where
  "unparsable_port_config = example_config\<lparr>RCON_PORT := ''abc''\<rparr>"

text \<open>A configuration with two violations.\<close>

definition bad_config :: config where
  "bad_config = example_config\<lparr>TOKEN := None, RCON_PORT := ''70000''\<rparr>"

text \<open>A remote log of 42 bytes that holds one death message in its first line, a state
  whose position, in memory and saved, is 40, and a configuration without the secret.\<close>

definition rotated_log :: string where
  "rotated_log = ''[00:00:01] [main/INFO]: Steve drowned'' @ [CHR 0x0A] @ ''[ok]''"

definition stale_state :: bot_state where
  "stale_state =
     initial_state\<lparr>log_file_position := 40, sftp_client := True, position_file := Some ''40''\<rparr>"

definition rotated_env :: log_env where
  "rotated_env = quiet_env\<lparr>sftp_stat := Inr 42, sftp_read := Inr rotated_log\<rparr>"

definition no_secret_config :: config where
  "no_secret_config = example_config\<lparr>SFTP_PASSWORD := [], LOG_FILE_PATH := ''logs/latest.log''\<rparr>"

definition local_log_env :: log_env where
  "local_log_env =
     quiet_env\<lparr>local_exists := True, local_getsize := Inr 42, local_read := Inr rotated_log\<rparr>"



text \<open>A remote source with which a session can be opened, and one that in addition reports
  the size \<open>n\<close>, gives \<open>bytes\<close> when read and closes without a failure.\<close>

definition remote_session :: "config \<Rightarrow> log_env \<Rightarrow> bool" where
  "remote_session cfg env =
     (use_sftp cfg \<and> SFTP_PASSWORD cfg \<noteq> [] \<and> py_int (SFTP_PORT cfg) \<noteq> None
      \<and> sftp_connect_error env = None)"

definition remote_source :: "config \<Rightarrow> log_env \<Rightarrow> nat \<Rightarrow> string \<Rightarrow> bool" where
  "remote_source cfg env n bytes =
     (remote_session cfg env \<and> sftp_stat env = Inr n \<and> sftp_read env = Inr bytes
      \<and> sftp_close_error env = None)"

text \<open>What the remote branch makes of the bytes from offset \<open>p\<close> up to the size \<open>n\<close>: the
  \<^verbatim>\<open>read\<close> of \<open>n - p\<close> bytes after the \<^verbatim>\<open>seek\<close>, cut at the newlines and parsed.\<close>

definition events_between :: "int \<Rightarrow> nat \<Rightarrow> string \<Rightarrow> string list" where
  "events_between p n bytes =
     parse_death_messages (py_split (CHR 0x0A) (take (nat (int n - p)) (drop (nat p) bytes)))"


text \<open>A remote log of 79 bytes: the one above with a second death message appended.\<close>

definition grown_log :: string where
  "grown_log = rotated_log @ [CHR 0x0A] @ ''[00:00:02] [main/INFO]: Alex drowned''"

definition grown_env :: log_env where
  "grown_env = quiet_env\<lparr>sftp_stat := Inr 79, sftp_read := Inr grown_log\<rparr>"

section \<open>Properties of the event extractor\<close>

lemma match_keywordsI:
  "kw \<in> set death_keywords \<Longrightarrow> match_keyword kw s \<Longrightarrow> match_keywords s"
  by (auto simp: match_keywords_def list_ex_iff)

lemma fell_in_vocabulary: "''fell from a high place'' \<in> set death_keywords"
  by (simp add: death_keywords_def)

lemma match_keywords_fell: "match_keywords ''fell from a high place''"
  by (rule match_keywordsI [OF fell_in_vocabulary]) (simp add: match_keyword_def)

lemma steve_word_chars:
  "takeWhile is_word_char ''Steve fell from a high place'' = ''Steve''"
  "dropWhile is_word_char ''Steve fell from a high place'' = '' fell from a high place''"
  by (simp_all add: is_word_char_def is_digit_def is_upper_def is_lower_def)

lemma match_name_steve: "match_name ''Steve fell from a high place''"
  by (simp add: match_name_def steve_word_chars match_keywords_fell
      del: takeWhile.simps dropWhile.simps)

lemma search_with_colon: "death_pattern_search ''[12:00:00]: Steve fell from a high place''"
  by (simp add: match_name_steve)

lemma strip_steve: "py_strip ''Steve fell from a high place'' = ''Steve fell from a high place''"
  by (simp add: py_strip_def is_space_def)

lemma parse_single_line:
  "parse_death_messages [line] =
     (if death_pattern_search line \<and> 0 < py_find '']: '' line
         \<and> py_strip (drop (nat (py_find '']: '' line + 3)) line) \<noteq> []
      then [py_strip (drop (nat (py_find '']: '' line + 3)) line)] else [])"
  by (simp add: parse_death_messages_def parse_line_def py_slice_from_def Let_def)

text \<open>
  Claim C4, as the specification states it, fails: the pattern asks for a colon and a space
  after the closing bracket, and the line \<^verbatim>\<open>[12:00:00] Steve fell from a high place\<close> has
  none, so the extractor produces no record for it.
\<close>

theorem extract_scenario_b_counterexample:
  "parse_death_messages [''[12:00:00] Steve fell from a high place''] = []
   \<and> parse_death_messages [''[12:00:00] Steve fell from a high place'']
       \<noteq> [''Steve fell from a high place'']"
  by (simp add: parse_death_messages_def parse_line_def)

text \<open>
  Claim C4, amended: for the line \<^verbatim>\<open>[12:00:00]: Steve fell from a high place\<close>, where the
  bracketed prefix ends in a colon and a space, the extractor produces exactly one record,
  with the text \<^verbatim>\<open>Steve fell from a high place\<close>; and for any single line the record, when
  there is one, is everything after the first \<^verbatim>\<open>]: \<close> of the line, trimmed.
\<close>

theorem extract_scenario_b_amended:
  "parse_death_messages [''[12:00:00]: Steve fell from a high place'']
     = [''Steve fell from a high place'']
   \<and> parse_death_messages [line] =
       (if death_pattern_search line \<and> 0 < py_find '']: '' line
           \<and> py_strip (drop (nat (py_find '']: '' line + 3)) line) \<noteq> []
        then [py_strip (drop (nat (py_find '']: '' line + 3)) line)] else [])"
proof
  show "parse_death_messages [''[12:00:00]: Steve fell from a high place'']
          = [''Steve fell from a high place'']"
    by (simp add: parse_death_messages_def parse_line_def py_slice_from_def
        search_with_colon strip_steve del: death_pattern_search.simps)
next
  show "parse_death_messages [line] =
       (if death_pattern_search line \<and> 0 < py_find '']: '' line
           \<and> py_strip (drop (nat (py_find '']: '' line + 3)) line) \<noteq> []
        then [py_strip (drop (nat (py_find '']: '' line + 3)) line)] else [])"
    by (rule parse_single_line)
qed

theorem extract_scenario_b_witness:
  "parse_death_messages [''[12:00:00]: Steve fell from a high place'']
     = [''Steve fell from a high place'']"
  using extract_scenario_b_amended [of "[]"] by (rule conjunct1)

section \<open>Properties of the log tailer within the loop\<close>

lemma check_log_for_deaths_returns:
  "\<exists>msgs. fst (check_log_for_deaths cfg env st) = Inr msgs"
  by (simp add: check_log_for_deaths_def split: prod.splits flow.splits)

lemma loop_fields_update [simp]:
  "loop_fields (st\<lparr>log_file_position := p\<rparr>) = loop_fields st"
  "loop_fields (st\<lparr>sftp_client := b\<rparr>) = loop_fields st"
  "loop_fields (st\<lparr>position_file := f\<rparr>) = loop_fields st"
  by (simp_all add: loop_fields_def)

lemma save_fields [simp]: "loop_fields (fst (save_log_position p env st)) = loop_fields st"
  by (simp add: save_log_position_def split: option.splits)

lemma session_fields [simp]: "loop_fields (fst (snd (get_sftp_connection cfg env st))) = loop_fields st"
  by (simp add: get_sftp_connection_def split: option.splits)

lemma resume_fields [simp]: "loop_fields (fst (resume_position env st)) = loop_fields st"
  by (simp add: resume_position_def Let_def case_prod_beta)

lemma sftp_tail_fields [simp]: "loop_fields (fst (snd (snd (sftp_tail cfg env st)))) = loop_fields st"
  by (simp add: sftp_tail_def Let_def case_prod_beta split: sum.splits option.splits)

lemma sftp_branch_fields [simp]: "loop_fields (fst (snd (snd (sftp_branch cfg env st)))) = loop_fields st"
proof -
  obtain b st1 l1 where g: "get_sftp_connection cfg env st = (b, st1, l1)"
    by (cases "get_sftp_connection cfg env st") auto
  have s1: "loop_fields st1 = loop_fields st"
    using session_fields [of cfg env st] g by simp
  obtain fl d st2 l2 where t: "sftp_tail cfg env st1 = (fl, d, st2, l2)"
    by (cases "sftp_tail cfg env st1") auto
  have s2: "loop_fields st2 = loop_fields st1"
    using sftp_tail_fields [of cfg env st1] t by simp
  show ?thesis
    using g t s1 s2
    by (simp add: sftp_branch_def split: flow.splits exn.splits exn_class.splits)
qed

lemma local_branch_fields [simp]: "loop_fields (fst (snd (snd (local_branch cfg env st)))) = loop_fields st"
  by (simp add: local_branch_def Let_def case_prod_beta split: sum.splits option.splits)

lemma check_log_body_fields [simp]:
  "loop_fields (fst (snd (snd (check_log_body cfg env st)))) = loop_fields st"
  by (simp add: check_log_body_def)

lemma check_log_fields [simp]:
  "loop_fields (fst (snd (check_log_for_deaths cfg env st))) = loop_fields st"
proof -
  obtain fl d st2 l2 where b: "check_log_body cfg env (fst (resume_position env st)) = (fl, d, st2, l2)"
    by (cases "check_log_body cfg env (fst (resume_position env st))") auto
  have "loop_fields (fst (snd (snd (check_log_body cfg env (fst (resume_position env st))))))
          = loop_fields (fst (resume_position env st))"
    by (rule check_log_body_fields)
  then have "loop_fields st2 = loop_fields st"
    by (simp add: b)
  then show ?thesis
    using b by (simp add: check_log_for_deaths_def case_prod_beta split: flow.splits)
qed

lemma poll_tick_success:
  assumes "\<not> query_fails cfg env"
  shows "fst (poll_tick cfg env st) = False
     \<and> consecutive_errors (fst (snd (snd (poll_tick cfg env st)))) = 0
     \<and> client_closed (fst (snd (snd (poll_tick cfg env st)))) = client_closed st"
proof -
  obtain current l0 where r: "rcon_list_players cfg (rcon_exchange env) = (Inr current, l0)"
    using assms by (cases "rcon_list_players cfg (rcon_exchange env)")
      (auto simp: query_fails_def split: sum.splits)
  let ?st1 = "st\<lparr>consecutive_errors := 0\<rparr>"
  obtain msgs where m: "fst (check_log_for_deaths cfg (tail_env env) ?st1) = Inr msgs"
    using check_log_for_deaths_returns by blast
  have f: "loop_fields (fst (snd (check_log_for_deaths cfg (tail_env env) ?st1))) = loop_fields ?st1"
    by (rule check_log_fields)
  show ?thesis
    using r m f
    by (simp add: poll_tick_def Let_def case_prod_beta loop_fields_def)
qed











text \<open>
  Claim C7: check_log_for_deaths always returns a list, whatever the file system and the
  file-transfer server answer; when its \<^verbatim>\<open>try\<close> block raises, the exception is logged
  and the list found so far is returned; the call leaves the failure counter alone, so a
  pass whose participant query succeeds ends with the counter at 0 and does not stop the
  loop.
\<close>

theorem log_tailing_never_raises:
  "(\<exists>msgs. fst (check_log_for_deaths cfg env st) = Inr msgs)
   \<and> consecutive_errors (fst (snd (check_log_for_deaths cfg env st))) = consecutive_errors st
   \<and> ((use_sftp cfg \<or> LOG_FILE_PATH cfg \<noteq> [])
        \<and> check_log_body cfg env (fst (resume_position env st)) = (Raised e, d, st2, l2)
      \<longrightarrow> fst (check_log_for_deaths cfg env st) = Inr d
        \<and> (ERROR, ''[ERROR] Error reading log file: '' @ exn_text e)
             \<in> set (snd (snd (check_log_for_deaths cfg env st))))
   \<and> (\<not> query_fails cfg tenv \<longrightarrow>
        consecutive_errors (fst (snd (snd (poll_tick cfg tenv st)))) = 0
      \<and> \<not> fst (poll_tick cfg tenv st))"
proof -
  have a: "\<exists>msgs. fst (check_log_for_deaths cfg env st) = Inr msgs"
    by (rule check_log_for_deaths_returns)
  have "loop_fields (fst (snd (check_log_for_deaths cfg env st))) = loop_fields st"
    by (rule check_log_fields)
  then have b: "consecutive_errors (fst (snd (check_log_for_deaths cfg env st))) = consecutive_errors st"
    by (simp add: loop_fields_def)
  have c: "(use_sftp cfg \<or> LOG_FILE_PATH cfg \<noteq> [])
        \<and> check_log_body cfg env (fst (resume_position env st)) = (Raised e, d, st2, l2)
      \<longrightarrow> fst (check_log_for_deaths cfg env st) = Inr d
        \<and> (ERROR, ''[ERROR] Error reading log file: '' @ exn_text e)
             \<in> set (snd (snd (check_log_for_deaths cfg env st)))"
    by (auto simp: check_log_for_deaths_def case_prod_beta)
  have d: "\<not> query_fails cfg tenv \<longrightarrow>
        consecutive_errors (fst (snd (snd (poll_tick cfg tenv st)))) = 0
      \<and> \<not> fst (poll_tick cfg tenv st)"
    using poll_tick_success [of cfg tenv st] by simp
  show ?thesis using a b c d by blast
qed

section \<open>Properties of one pass of the loop\<close>

lemmas py_int_eval =
  py_int_def is_int_space_def is_digit_def digits_value_def digit_value_def max_str_digits_def

text \<open>The separators that \<^verbatim>\<open>strip\<close> removes do not make an integer literal.\<close>

lemma py_int_separator_rejected: "py_int [CHR 0x1C, CHR ''8'', CHR ''0'', CHR 0x1F] = None"
  by (simp add: py_int_eval)

lemma py_int_space_accepted: "py_int '' 80 '' = Some 80"
  by (simp add: py_int_eval)

lemma py_int_25575: "py_int ''25575'' = Some 25575"
  by (simp add: py_int_eval)

lemma py_int_22: "py_int ''22'' = Some 22"
  by (simp add: py_int_eval)


lemma rcon_empty_reply:
  "rcon_list_players example_config (Inr ''There are 0 of a max of 20 players online:'') = (Inr {||}, [])"
  by (simp add: rcon_list_players_def example_config_def py_int_25575 py_strip_def is_space_def)

lemma rcon_two_reply:
  "rcon_list_players example_config (Inr ''There are 2 of a max of 20 players online: Bob, Alice'')
     = (Inr {|''Bob'', ''Alice''|}, [])"
  by (simp add: rcon_list_players_def example_config_def py_int_25575 py_strip_def is_space_def)

lemma for_each_sends: "fst (for_each body items) = concat (map (\<lambda>x. fst (body x)) items)"
  by (simp add: for_each_def)

lemma joined_sends:
  "fst (for_each (notify_joined se) players) = map (\<lambda>p. ''**'' @ p @ ''** joined the server'') players"
  by (induction players) (simp_all add: for_each_def notify_joined_def notify_def)

lemma left_sends:
  "fst (for_each (notify_left se) players) = map (\<lambda>p. ''**'' @ p @ ''** left the server'') players"
  by (induction players) (simp_all add: for_each_def notify_left_def notify_def)

lemma death_sends:
  "fst (for_each (notify_death se) msgs) = map (\<lambda>d. ''[DEATH] '' @ d) msgs"
  by (induction msgs) (simp_all add: for_each_def notify_death_def notify_def)

lemma sorted_list_of_fset_props:
  "sorted (sorted_list_of_fset A) \<and> distinct (sorted_list_of_fset A)
   \<and> set (sorted_list_of_fset A) = fset A"
  by (simp add: sorted_list_of_fset.rep_eq)

text \<open>
  Claim C1: in a pass whose query returns the set \<open>current\<close>, the joined set is
  \<open>current\<close> minus the previous set and the left set is the previous set minus
  \<open>current\<close>, the two are disjoint, and the messages handed to the channel are the join
  messages in sorted order of name, then (when leave notifications are enabled) the leave
  messages in sorted order of name, then the death messages.
\<close>

theorem tick_diff_sorted:
  assumes "fst (rcon_list_players cfg (rcon_exchange env)) = Inr current"
  shows "joined_of current (last_online st) = current |-| last_online st
       \<and> left_of current (last_online st) = last_online st |-| current
       \<and> joined_of current (last_online st) |\<inter>| left_of current (last_online st) = {||}
       \<and> fst (snd (poll_tick cfg env st)) =
            map (\<lambda>p. ''**'' @ p @ ''** joined the server'')
              (sorted_list_of_fset (joined_of current (last_online st)))
            @ (if NOTIFY_LOGOUT cfg
               then map (\<lambda>p. ''**'' @ p @ ''** left the server'')
                      (sorted_list_of_fset (left_of current (last_online st)))
               else [])
            @ map (\<lambda>d. ''[DEATH] '' @ d)
                (projr (fst (check_log_for_deaths cfg (tail_env env) (st\<lparr>consecutive_errors := 0\<rparr>))))
       \<and> sorted (sorted_list_of_fset (joined_of current (last_online st)))
       \<and> distinct (sorted_list_of_fset (joined_of current (last_online st)))
       \<and> set (sorted_list_of_fset (joined_of current (last_online st))) = fset (current |-| last_online st)
       \<and> sorted (sorted_list_of_fset (left_of current (last_online st)))
       \<and> distinct (sorted_list_of_fset (left_of current (last_online st)))
       \<and> set (sorted_list_of_fset (left_of current (last_online st))) = fset (last_online st |-| current)"
proof -
  obtain l0 where r: "rcon_list_players cfg (rcon_exchange env) = (Inr current, l0)"
    using assms by (cases "rcon_list_players cfg (rcon_exchange env)") simp
  obtain msgs where m: "fst (check_log_for_deaths cfg (tail_env env) (st\<lparr>consecutive_errors := 0\<rparr>)) = Inr msgs"
    using check_log_for_deaths_returns by blast
  have sends: "fst (snd (poll_tick cfg env st)) =
            map (\<lambda>p. ''**'' @ p @ ''** joined the server'')
              (sorted_list_of_fset (joined_of current (last_online st)))
            @ (if NOTIFY_LOGOUT cfg
               then map (\<lambda>p. ''**'' @ p @ ''** left the server'')
                      (sorted_list_of_fset (left_of current (last_online st)))
               else [])
            @ map (\<lambda>d. ''[DEATH] '' @ d)
                (projr (fst (check_log_for_deaths cfg (tail_env env) (st\<lparr>consecutive_errors := 0\<rparr>))))"
    using r m
    by (simp add: poll_tick_def Let_def case_prod_beta joined_sends left_sends death_sends)
  have disj: "joined_of current (last_online st) |\<inter>| left_of current (last_online st) = {||}"
    by (auto simp: joined_of_def left_of_def)
  show ?thesis
    using sends disj sorted_list_of_fset_props [of "joined_of current (last_online st)"]
      sorted_list_of_fset_props [of "left_of current (last_online st)"]
    by (simp add: joined_of_def left_of_def)
qed

lemma ex_diff1: "{|''Bob'', ''Alice''|} |-| {|''Carol''|} = {|''Bob'', ''Alice''|}"
  by auto
lemma ex_diff2: "{|''Carol''|} |-| {|''Bob'', ''Alice''|} = {|''Carol''|}"
  by auto
lemma ex_sorted1: "sorted_list_of_fset {|''Bob'', ''Alice''|} = [''Alice'', ''Bob'']"
  by (simp add: sorted_list_of_fset.rep_eq)
lemma ex_sorted2: "sorted_list_of_fset {|''Carol''|} = [''Carol'']"
  by (simp add: sorted_list_of_fset.rep_eq)

lemma quiet_check:
  "check_log_for_deaths example_config quiet_env (initial_state\<lparr>last_online := prev, consecutive_errors := 0\<rparr>)
     = (Inr [], initial_state\<lparr>last_online := prev, sftp_client := True\<rparr>,
        [(INFO, ''[OK] Connected to SFTP server: sftp.example.org:22'')])"
  by (simp add: check_log_for_deaths_def resume_position_def load_log_position_def use_sftp_def
      check_log_body_def sftp_branch_def get_sftp_connection_def sftp_tail_def
      example_config_def quiet_env_def initial_state_def py_int_22 Let_def)

lemma example_notifies: "NOTIFY_LOGOUT example_config"
  by (simp add: example_config_def)

theorem tick_diff_sorted_witness:
  "fst (rcon_list_players example_config
         (rcon_exchange (reply_tick ''There are 2 of a max of 20 players online: Bob, Alice'')))
     = Inr {|''Bob'', ''Alice''|}
   \<and> fst (snd (poll_tick example_config
                 (reply_tick ''There are 2 of a max of 20 players online: Bob, Alice'')
                 (initial_state\<lparr>last_online := {|''Carol''|}\<rparr>)))
     = [''**Alice** joined the server'', ''**Bob** joined the server'',
        ''**Carol** left the server'']"
proof -
  have h: "fst (rcon_list_players example_config
         (rcon_exchange (reply_tick ''There are 2 of a max of 20 players online: Bob, Alice'')))
     = Inr {|''Bob'', ''Alice''|}"
    by (simp add: reply_tick_def rcon_two_reply)
  have t: "tail_env (reply_tick ''There are 2 of a max of 20 players online: Bob, Alice'') = quiet_env"
    by (simp add: reply_tick_def)
  show ?thesis
    using h tick_diff_sorted [OF h, of "initial_state\<lparr>last_online := {|''Carol''|}\<rparr>"]
    by (simp add: t joined_of_def left_of_def ex_diff1 ex_diff2 ex_sorted1 ex_sorted2
        quiet_check example_notifies)
qed


lemma empty_reply_ok:
  "\<not> query_fails example_config (reply_tick ''There are 0 of a max of 20 players online:'')"
  by (simp add: query_fails_def reply_tick_def rcon_empty_reply)


lemma raising_body:
  "check_log_body example_config raising_env (fst (resume_position raising_env initial_state))
     = (Raised (Exn OtherException ''Socket is closed''), [], initial_state\<lparr>sftp_client := True\<rparr>,
        [(INFO, ''[OK] Connected to SFTP server: sftp.example.org:22'')])"
  by (simp add: resume_position_def load_log_position_def use_sftp_def
      check_log_body_def sftp_branch_def get_sftp_connection_def sftp_tail_def
      example_config_def quiet_env_def raising_env_def initial_state_def py_int_22 Let_def)

lemma example_uses_sftp: "use_sftp example_config"
  by (simp add: use_sftp_def example_config_def)

theorem log_tailing_never_raises_witness:
  "check_log_body example_config raising_env (fst (resume_position raising_env initial_state))
     = (Raised (Exn OtherException ''Socket is closed''), [], initial_state\<lparr>sftp_client := True\<rparr>,
        [(INFO, ''[OK] Connected to SFTP server: sftp.example.org:22'')])
   \<and> fst (check_log_for_deaths example_config raising_env initial_state) = Inr []
   \<and> (ERROR, ''[ERROR] Error reading log file: Socket is closed'')
        \<in> set (snd (snd (check_log_for_deaths example_config raising_env initial_state)))
   \<and> consecutive_errors (fst (snd (snd (poll_tick example_config
        (reply_tick ''There are 0 of a max of 20 players online:'')
        (initial_state\<lparr>consecutive_errors := 3\<rparr>))))) = 0"
  using log_tailing_never_raises [where cfg = example_config and env = raising_env
      and st = initial_state and e = "Exn OtherException ''Socket is closed''" and d = "[]"
      and ?st2.0 = "initial_state\<lparr>sftp_client := True\<rparr>"
      and ?l2.0 = "[(INFO, ''[OK] Connected to SFTP server: sftp.example.org:22'')]"]
    log_tailing_never_raises [where cfg = example_config
      and tenv = "reply_tick ''There are 0 of a max of 20 players online:''"
      and st = "initial_state\<lparr>consecutive_errors := 3\<rparr>"]
    raising_body example_uses_sftp empty_reply_ok
  by simp

section \<open>Properties of the configuration check\<close>

lemma check_token_report: "check_token cfg errors = errors @ report cfg Token_missing"
  by (simp add: check_token_def report_def unset_def split: option.splits)

lemma check_channel_report:
  "check_channel cfg errors = errors @ report cfg Channel_missing @ report cfg Channel_not_integer"
  by (simp add: check_channel_def report_def split: option.splits)

lemma check_host_report: "check_host cfg errors = errors @ report cfg Host_missing"
  by (simp add: check_host_def report_def unset_def split: option.splits)

lemma check_password_report: "check_password cfg errors = errors @ report cfg Password_missing"
  by (simp add: check_password_def report_def unset_def split: option.splits)

lemma check_port_report:
  "check_port cfg errors = errors @ report cfg Port_not_integer @ report cfg Port_out_of_range"
  by (simp add: check_port_def report_def split: option.splits)

lemma check_poll_report:
  "fst (check_poll cfg errors) = errors @ report cfg Poll_not_integer @ report cfg Poll_too_low"
  by (simp add: check_poll_def report_def split: option.splits)

lemma config_errors_reports:
  "config_errors cfg = concat (map (report cfg) all_violations)"
  by (simp add: config_errors_def validation_checks_def all_violations_def
      check_token_report check_channel_report check_host_report check_password_report
      check_port_report check_poll_report)

lemma all_violations_complete: "v \<in> set all_violations"
  by (cases v) (simp_all add: all_violations_def)

lemma config_errors_set:
  "set (config_errors cfg) = violation_message ` {v. violation_present cfg v}"
proof -
  have "set (config_errors cfg) = (\<Union>v\<in>set all_violations. set (report cfg v))"
    by (simp add: config_errors_reports)
  also have "\<dots> = (\<Union>v. set (report cfg v))"
    using all_violations_complete by auto
  also have "\<dots> = violation_message ` {v. violation_present cfg v}"
    by (auto simp: report_def split: if_splits)
  finally show ?thesis .
qed

lemma validate_iff: "fst (validate_configuration cfg) = (config_errors cfg = [])"
  by (simp add: validate_configuration_def config_errors_def case_prod_beta)

lemma guard_iff:
  "(fst (main_guard cfg) = Exit 1) = (config_errors cfg \<noteq> [])"
  "(fst (main_guard cfg) = Start_bot) = (config_errors cfg = [])"
  by (simp_all add: main_guard_def validate_configuration_def config_errors_def case_prod_beta)

lemma errors_logged:
  "e \<in> set (config_errors cfg) \<Longrightarrow>
     (ERROR, ''  [ERROR] '' @ e) \<in> set (snd (validate_configuration cfg))"
  by (auto simp: validate_configuration_def config_errors_def case_prod_beta)

text \<open>
  Claim C8: validation succeeds exactly when no violation is present; the start-up guard
  ends the process with exit status 1 exactly when some violation is present; and the list
  of errors holds the message of every violation present, each of them logged, not only
  the first.
\<close>

theorem validation_reports_all:
  "fst (validate_configuration cfg) = (\<forall>v. \<not> violation_present cfg v)
   \<and> (fst (main_guard cfg) = Exit 1) = (\<exists>v. violation_present cfg v)
   \<and> (fst (main_guard cfg) = Start_bot) = (\<forall>v. \<not> violation_present cfg v)
   \<and> config_errors cfg = concat (map (report cfg) all_violations)
   \<and> set (config_errors cfg) = violation_message ` {v. violation_present cfg v}
   \<and> (\<forall>v. violation_present cfg v \<longrightarrow>
         (ERROR, ''  [ERROR] '' @ violation_message v) \<in> set (snd (validate_configuration cfg)))"
proof -
  have none: "(config_errors cfg = []) = (\<forall>v. \<not> violation_present cfg v)"
    using config_errors_set [of cfg] by auto
  have a: "fst (validate_configuration cfg) = (\<forall>v. \<not> violation_present cfg v)"
    using validate_iff none by simp
  have b: "(fst (main_guard cfg) = Exit 1) = (\<exists>v. violation_present cfg v)"
    using guard_iff(1) [of cfg] none by simp
  have c: "(fst (main_guard cfg) = Start_bot) = (\<forall>v. \<not> violation_present cfg v)"
    using guard_iff(2) [of cfg] none by simp
  have d: "\<forall>v. violation_present cfg v \<longrightarrow>
         (ERROR, ''  [ERROR] '' @ violation_message v) \<in> set (snd (validate_configuration cfg))"
  proof (intro allI impI)
    fix v assume "violation_present cfg v"
    then have "violation_message v \<in> set (config_errors cfg)"
      by (simp add: config_errors_set)
    then show "(ERROR, ''  [ERROR] '' @ violation_message v) \<in> set (snd (validate_configuration cfg))"
      by (rule errors_logged)
  qed
  show ?thesis
    using a b c d config_errors_reports [of cfg] config_errors_set [of cfg] by blast
qed

lemma py_int_70000: "py_int ''70000'' = Some 70000"
  by (simp add: py_int_eval)

lemma bad_config_violations:
  "violation_present bad_config Token_missing" "violation_present bad_config Port_out_of_range"
  by (simp_all add: bad_config_def example_config_def py_int_70000)

theorem validation_reports_all_witness:
  "violation_present bad_config Token_missing
   \<and> violation_present bad_config Port_out_of_range
   \<and> fst (main_guard bad_config) = Exit 1
   \<and> \<not> fst (validate_configuration bad_config)
   \<and> (ERROR, ''  [ERROR] DISCORD_TOKEN is not set'') \<in> set (snd (validate_configuration bad_config))
   \<and> (ERROR, ''  [ERROR] RCON_PORT must be between 1 and 65535'')
        \<in> set (snd (validate_configuration bad_config))"
proof -
  note t = validation_reports_all [of bad_config]
  have g: "fst (main_guard bad_config) = Exit 1" and v: "\<not> fst (validate_configuration bad_config)"
    using t bad_config_violations(1) by blast+
  have l1: "(ERROR, ''  [ERROR] '' @ violation_message Token_missing)
      \<in> set (snd (validate_configuration bad_config))"
    using t bad_config_violations(1) by blast
  have l2: "(ERROR, ''  [ERROR] '' @ violation_message Port_out_of_range)
      \<in> set (snd (validate_configuration bad_config))"
    using t bad_config_violations(2) by blast
  show ?thesis
    using g v l1 l2 bad_config_violations by simp
qed

section \<open>Properties of the command channel\<close>

lemma split1_contains:
  "m \<noteq> [] \<Longrightarrow> py_contains m s \<Longrightarrow> \<exists>before. py_split1 m s = [before, after_marker m s]"
proof (induction s)
  case Nil
  then show ?case by simp
next
  case (Cons c cs)
  show ?case
  proof (cases "prefix m (c # cs)")
    case True
    then show ?thesis by simp
  next
    case False
    then have "py_contains m cs" using Cons.prems(2) by simp
    then obtain b where "py_split1 m cs = [b, after_marker m cs]"
      using Cons.IH Cons.prems(1) by blast
    then show ?thesis using False by simp
  qed
qed

lemma py_split_nonempty [simp]: "py_split sep s \<noteq> []"
  by (induction s) (auto split: list.splits)

lemma py_split_Cons:
  "py_split sep (c # cs) =
     (if c = sep then [] # py_split sep cs
      else (c # hd (py_split sep cs)) # tl (py_split sep cs))"
  using py_split_nonempty [of sep cs] by (cases "py_split sep cs") auto

lemma py_split_no_sep: "sep \<notin> set s \<Longrightarrow> py_split sep s = [s]"
  by (induction s) (auto simp: py_split_Cons simp del: py_split.simps(2))

lemma py_split_single: "py_split sep s = [t] \<Longrightarrow> t = s \<and> sep \<notin> set s"
proof (induction s arbitrary: t)
  case Nil
  then show ?case by simp
next
  case (Cons c cs)
  show ?case
  proof (cases "c = sep")
    case True
    then show ?thesis using Cons.prems by (simp add: py_split_Cons del: py_split.simps(2))
  next
    case False
    then have "py_split sep cs = [hd (py_split sep cs)]" and "t = c # hd (py_split sep cs)"
      using Cons.prems py_split_nonempty [of sep cs]
      by (cases "py_split sep cs"; simp add: py_split_Cons del: py_split.simps(2))+
    then show ?thesis using Cons.IH [of "hd (py_split sep cs)"] False by simp
  qed
qed

lemma split_lstrip:
  "\<not> is_space sep \<Longrightarrow>
   py_split sep (dropWhile is_space s)
     = dropWhile is_space (hd (py_split sep s)) # tl (py_split sep s)"
  by (induction s) (auto simp: py_split_Cons simp del: py_split.simps(2))

lemma rstrip_Cons:
  "rstrip (c # cs) = (if rstrip cs = [] \<and> is_space c then [] else c # rstrip cs)"
  by (auto simp: rstrip_def dropWhile_append dropWhile_eq_Nil_conv)

lemma rstrip_Nil [simp]: "rstrip [] = []"
  by (simp add: rstrip_def)

lemma rstrip_empty_spaces: "rstrip s = [] \<Longrightarrow> \<forall>x\<in>set s. is_space x"
  by (simp add: rstrip_def dropWhile_eq_Nil_conv)

lemma split_rstrip:
  "\<not> is_space sep \<Longrightarrow>
   py_split sep (rstrip s) = butlast (py_split sep s) @ [rstrip (last (py_split sep s))]"
proof (induction s)
  case Nil
  then show ?case by simp
next
  case (Cons c cs)
  let ?T = "py_split sep cs"
  have ih: "py_split sep (rstrip cs) = butlast ?T @ [rstrip (last ?T)]"
    using Cons by simp
  show ?case
  proof (cases "rstrip cs = [] \<and> is_space c")
    case True
    then have "sep \<notin> set (c # cs)"
      using rstrip_empty_spaces [of cs] Cons.prems by auto
    then have "py_split sep (c # cs) = [c # cs]" by (rule py_split_no_sep)
    then show ?thesis using True by (simp add: rstrip_Cons del: py_split.simps(2))
  next
    case False
    then have r: "rstrip (c # cs) = c # rstrip cs" by (simp add: rstrip_Cons)
    show ?thesis
    proof (cases "c = sep")
      case True
      then show ?thesis using r ih by (simp add: py_split_Cons del: py_split.simps(2))
    next
      case ne: False
      show ?thesis
      proof (cases "tl ?T = []")
        case True
        then have "?T = [hd ?T]"
          using py_split_nonempty [of sep cs] by (cases ?T) auto
        then have t: "?T = [cs]"
          using py_split_single [of sep cs "hd ?T"] by simp
        show ?thesis using r ih t ne False
          by (simp add: py_split_Cons rstrip_Cons del: py_split.simps(2))
      next
        case two: False
        then obtain a b rest where T: "?T = a # b # rest"
          by (cases ?T; cases "tl ?T") auto
        show ?thesis using r ih T ne by (simp add: py_split_Cons del: py_split.simps(2))
      qed
    qed
  qed
qed


lemma py_strip_rstrip: "py_strip s = rstrip (dropWhile is_space s)"
  by (simp add: py_strip_def rstrip_def)

lemma lstrip_rstrip: "dropWhile is_space (rstrip s) = rstrip (dropWhile is_space s)"
proof (induction s)
  case Nil
  then show ?case by simp
next
  case (Cons c cs)
  show ?case
  proof (cases "is_space c")
    case True
    have "dropWhile is_space (rstrip (c # cs)) = dropWhile is_space (rstrip cs)"
      using True by (simp add: rstrip_Cons)
    then show ?thesis using True Cons.IH by simp
  next
    case False
    then show ?thesis by (simp add: rstrip_Cons)
  qed
qed

lemma rstrip_idem: "rstrip (rstrip s) = rstrip s"
  by (simp add: rstrip_def)

lemma strip_of_rstrip: "py_strip (rstrip s) = py_strip s"
  by (simp add: py_strip_rstrip lstrip_rstrip rstrip_idem)

lemma strip_of_lstrip: "py_strip (dropWhile is_space s) = py_strip s"
  by (simp add: py_strip_def)

lemma map_last_changed:
  "xs \<noteq> [] \<Longrightarrow> f (g (last xs)) = f (last xs) \<Longrightarrow> map f (butlast xs @ [g (last xs)]) = map f xs"
  by (induction xs) auto

lemma map_hd_tl: "xs \<noteq> [] \<Longrightarrow> f (hd xs) # map f (tl xs) = map f xs"
  by (cases xs) simp_all

lemma tokens_of_stripped:
  assumes "\<not> is_space sep"
  shows "map py_strip (py_split sep (py_strip s)) = map py_strip (py_split sep s)"
proof -
  let ?T = "py_split sep s"
  let ?T1 = "dropWhile is_space (hd ?T) # tl ?T"
  have "py_split sep (py_strip s) = butlast ?T1 @ [rstrip (last ?T1)]"
    using split_rstrip [OF assms, of "dropWhile is_space s"] split_lstrip [OF assms, of s]
    by (simp add: py_strip_rstrip)
  then have "map py_strip (py_split sep (py_strip s)) = map py_strip ?T1"
    using map_last_changed [of ?T1 py_strip rstrip] by (simp add: strip_of_rstrip)
  also have "\<dots> = py_strip (hd ?T) # map py_strip (tl ?T)"
    by (simp add: strip_of_lstrip)
  also have "\<dots> = map py_strip ?T"
    by (rule map_hd_tl) (rule py_split_nonempty)
  finally show ?thesis .
qed

lemma comma_not_space: "\<not> is_space CHR '',''"
  by (simp add: is_space_def)

lemma names_code:
  "fset_of_list (map py_strip (filter (\<lambda>n. py_strip n \<noteq> []) (py_split CHR '','' (py_strip a))))
     = fset_of_list (filter (\<lambda>t. t \<noteq> []) (map py_strip (py_split CHR '','' a)))"
proof -
  have "map py_strip (filter (\<lambda>n. py_strip n \<noteq> []) (py_split CHR '','' (py_strip a)))
      = filter (\<lambda>t. t \<noteq> []) (map py_strip (py_split CHR '','' (py_strip a)))"
    by (simp add: filter_map comp_def)
  then show ?thesis
    by (simp only: tokens_of_stripped [OF comma_not_space])
qed

lemma names_empty:
  assumes "py_strip a = []"
  shows "filter (\<lambda>t. t \<noteq> []) (map py_strip (py_split CHR '','' a)) = []"
proof -
  have "map py_strip (py_split CHR '','' a) = map py_strip (py_split CHR '','' (py_strip a))"
    by (simp only: tokens_of_stripped [OF comma_not_space])
  also have "\<dots> = [py_strip []]"
    by (simp only: assms py_split.simps list.map)
  also have "\<dots> = [[]]"
    by (simp add: py_strip_def)
  finally show ?thesis by simp
qed

lemma rcon_parse:
  assumes "py_int (RCON_PORT cfg) \<noteq> None" "py_contains ''online:'' resp"
  shows "rcon_list_players cfg (Inr resp) = (Inr (names_of_reply resp), [])"
proof -
  obtain before where p: "py_split1 ''online:'' resp = [before, after_marker ''online:'' resp]"
    using split1_contains [of "''online:''" resp] assms(2) by auto
  show ?thesis
  proof (cases "py_strip (after_marker ''online:'' resp) = []")
    case True
    then show ?thesis
      using assms p names_empty [OF True]
      by (auto simp: rcon_list_players_def names_of_reply_def)
  next
    case False
    then show ?thesis
      using assms p names_code [of "after_marker ''online:'' resp"]
      by (auto simp: rcon_list_players_def names_of_reply_def Let_def)
  qed
qed

lemma validated_port: "fst (validate_configuration cfg) \<Longrightarrow> py_int (RCON_PORT cfg) \<noteq> None"
proof -
  assume "fst (validate_configuration cfg)"
  then have "config_errors cfg = []" by (simp add: validate_iff)
  then have "violation_message ` {v. violation_present cfg v} = {}"
    using config_errors_set [of cfg] by simp
  then have "\<forall>v. \<not> violation_present cfg v"
    by blast
  then have "\<not> violation_present cfg Port_not_integer"
    by (rule spec)
  then show ?thesis
    by simp
qed

lemma rcon_bad_port:
  "py_int (RCON_PORT cfg) = None \<Longrightarrow>
     fst (rcon_list_players cfg exchange) = Inl (Exn ValueError ''invalid literal for int() with base 10'')"
  by (simp add: rcon_list_players_def)

lemma rcon_failed_exchange:
  "py_int (RCON_PORT cfg) \<noteq> None \<Longrightarrow> fst (rcon_list_players cfg (Inl e)) = Inl e"
  by (auto simp: rcon_list_players_def)

lemma rcon_no_marker:
  "py_int (RCON_PORT cfg) \<noteq> None \<Longrightarrow> \<not> py_contains ''online:'' resp \<Longrightarrow>
     rcon_list_players cfg (Inr resp)
       = (Inr {||}, [(WARNING, ''Unexpected RCON response format: '' @ resp)])"
  by (auto simp: rcon_list_players_def)

lemma rcon_raises_iff:
  "(\<exists>e. fst (rcon_list_players cfg exchange) = Inl e)
     \<longleftrightarrow> (py_int (RCON_PORT cfg) = None \<or> (\<exists>e. exchange = Inl e))"
proof (cases "py_int (RCON_PORT cfg) = None")
  case True
  then show ?thesis using rcon_bad_port [OF True, of exchange] by simp
next
  case False
  show ?thesis
  proof (cases exchange)
    case (Inl x)
    then show ?thesis using rcon_failed_exchange [OF False, of x] by simp
  next
    case (Inr r)
    show ?thesis
    proof (cases "py_contains ''online:'' r")
      case True
      then show ?thesis using rcon_parse [OF False True] Inr False by simp
    next
      case nm: False
      then show ?thesis using rcon_no_marker [OF False nm] Inr False by simp
    qed
  qed
qed

text \<open>
  Claim C6, amended: rcon_list_players raises exactly when the configured port is not an
  integer literal or the exchange with the server fails. With a port that is an integer
  literal, which validation guarantees, a failed exchange passes its exception on, a reply
  that holds the marker gives the set of names the specification describes and logs
  nothing, and a reply without the marker gives the empty set and one warning. With a
  validated configuration it raises exactly when the exchange fails.
\<close>

theorem rcon_list_players_amended:
  "((\<exists>e. fst (rcon_list_players cfg exchange) = Inl e)
      \<longleftrightarrow> (py_int (RCON_PORT cfg) = None \<or> (\<exists>e. exchange = Inl e)))
   \<and> (py_int (RCON_PORT cfg) = None \<longrightarrow>
        fst (rcon_list_players cfg exchange)
          = Inl (Exn ValueError ''invalid literal for int() with base 10''))
   \<and> (py_int (RCON_PORT cfg) \<noteq> None \<and> exchange = Inl e \<longrightarrow>
        fst (rcon_list_players cfg exchange) = Inl e)
   \<and> (py_int (RCON_PORT cfg) \<noteq> None \<and> exchange = Inr resp \<and> py_contains ''online:'' resp \<longrightarrow>
        rcon_list_players cfg exchange = (Inr (names_of_reply resp), []))
   \<and> (py_int (RCON_PORT cfg) \<noteq> None \<and> exchange = Inr resp \<and> \<not> py_contains ''online:'' resp \<longrightarrow>
        rcon_list_players cfg exchange
          = (Inr {||}, [(WARNING, ''Unexpected RCON response format: '' @ resp)]))
   \<and> (fst (validate_configuration cfg) \<longrightarrow>
        ((\<exists>e. fst (rcon_list_players cfg exchange) = Inl e) \<longleftrightarrow> (\<exists>e. exchange = Inl e)))"
proof -
  have v: "fst (validate_configuration cfg) \<longrightarrow>
        ((\<exists>e. fst (rcon_list_players cfg exchange) = Inl e) \<longleftrightarrow> (\<exists>e. exchange = Inl e))"
    using rcon_raises_iff [of cfg exchange] validated_port [of cfg] by blast
  show ?thesis
    using v rcon_raises_iff [of cfg exchange] rcon_bad_port [of cfg exchange]
      rcon_failed_exchange [of cfg e] rcon_no_marker [of cfg resp] rcon_parse [of cfg resp]
    by blast
qed

lemma py_int_abc: "py_int ''abc'' = None"
  by (simp add: py_int_eval)

text \<open>
  Claim C6, as the specification states it, fails: with the port \<^verbatim>\<open>abc\<close> the call raises
  \<^verbatim>\<open>ValueError\<close> although the exchange would have given a reply that holds the marker and
  one name; the conversion of the port sits inside the \<^verbatim>\<open>try\<close>, before anything is sent.
\<close>

theorem rcon_list_players_counterexample:
  "fst (rcon_list_players unparsable_port_config
         (Inr ''There are 1 of a max of 20 players online: Bob''))
     = Inl (Exn ValueError ''invalid literal for int() with base 10'')
   \<and> py_contains ''online:'' ''There are 1 of a max of 20 players online: Bob''
   \<and> names_of_reply ''There are 1 of a max of 20 players online: Bob'' = {|''Bob''|}"
  by (simp add: rcon_list_players_def unparsable_port_config_def py_int_abc
      names_of_reply_def py_strip_def is_space_def)

lemma example_port: "py_int (RCON_PORT example_config) \<noteq> None"
  by (simp add: example_config_def py_int_25575)

lemma example_names:
  "names_of_reply ''There are 2 of a max of 20 players online: Bob, Alice'' = {|''Bob'', ''Alice''|}"
  by (simp add: names_of_reply_def py_strip_def is_space_def)

lemma example_validates: "fst (validate_configuration example_config)"
  by (simp add: validate_iff config_errors_reports all_violations_def report_def
      example_config_def py_int_25575 py_int_eval)

theorem rcon_list_players_amended_witness:
  "fst (validate_configuration example_config)
   \<and> rcon_list_players example_config
        (Inr ''There are 2 of a max of 20 players online: Bob, Alice'')
       = (Inr {|''Bob'', ''Alice''|}, [])
   \<and> rcon_list_players example_config (Inr ''Unknown command'')
       = (Inr {||}, [(WARNING, ''Unexpected RCON response format: Unknown command'')])
   \<and> fst (rcon_list_players example_config (Inl (Exn OtherException ''Connection refused'')))
       = Inl (Exn OtherException ''Connection refused'')
   \<and> fst (rcon_list_players unparsable_port_config
         (Inr ''There are 2 of a max of 20 players online: Bob, Alice''))
       = Inl (Exn ValueError ''invalid literal for int() with base 10'')"
proof -
  have c1: "py_contains ''online:'' ''There are 2 of a max of 20 players online: Bob, Alice''"
    by simp
  have c2: "\<not> py_contains ''online:'' ''Unknown command''"
    by simp
  have bad: "py_int (RCON_PORT unparsable_port_config) = None"
    by (simp add: unparsable_port_config_def py_int_abc)
  show ?thesis
    using example_validates example_port c1 c2 bad example_names
      rcon_list_players_amended [where cfg = example_config
        and exchange = "Inr ''There are 2 of a max of 20 players online: Bob, Alice''"
        and resp = "''There are 2 of a max of 20 players online: Bob, Alice''"]
      rcon_list_players_amended [where cfg = example_config
        and exchange = "Inr ''Unknown command''" and resp = "''Unknown command''"]
      rcon_list_players_amended [where cfg = example_config
        and exchange = "Inl (Exn OtherException ''Connection refused'')"
        and e = "Exn OtherException ''Connection refused''"]
      rcon_list_players_amended [where cfg = unparsable_port_config
        and exchange = "Inr ''There are 2 of a max of 20 players online: Bob, Alice''"]
    by simp
qed

section \<open>Properties of the log tailer\<close>

lemma save_keeps:
  "log_file_position (fst (save_log_position p env st)) = log_file_position st"
  "sftp_client (fst (save_log_position p env st)) = sftp_client st"
  by (simp_all add: save_log_position_def split: option.splits)

lemma session_keeps:
  "log_file_position (fst (snd (get_sftp_connection cfg env st))) = log_file_position st"
  "position_file (fst (snd (get_sftp_connection cfg env st))) = position_file st"
  by (simp_all add: get_sftp_connection_def split: option.splits)

lemma resume_keeps:
  "sftp_client (fst (resume_position env st)) = sftp_client st"
  "position_file (fst (resume_position env st)) = position_file st"
  by (simp_all add: resume_position_def Let_def case_prod_beta)

lemma resume_nonzero: "log_file_position st \<noteq> 0 \<Longrightarrow> resume_position env st = (st, [])"
  by (simp add: resume_position_def)

lemma resume_zero:
  "log_file_position st = 0 \<Longrightarrow>
     log_file_position (fst (resume_position env st)) = fst (load_log_position env st)"
  by (simp add: resume_position_def Let_def case_prod_beta)

lemma load_depends:
  "position_file st' = position_file st \<Longrightarrow> load_log_position env st' = load_log_position env st"
  by (simp add: load_log_position_def)

lemma tail_keeps_client:
  "sftp_client (fst (snd (snd (sftp_tail cfg env st)))) = sftp_client st"
  by (simp add: sftp_tail_def Let_def case_prod_beta save_keeps split: sum.splits option.splits)


lemma tail_position:
  "sftp_stat env = Inr n \<Longrightarrow> sftp_read env = Inr bytes \<Longrightarrow> 0 \<le> log_file_position st \<Longrightarrow>
     log_file_position (fst (snd (snd (sftp_tail cfg env st)))) = int n"
  by (auto simp: sftp_tail_def Let_def case_prod_beta save_keeps split: sum.splits option.splits)

lemma tail_position_negative:
  "log_file_position st < 0 \<Longrightarrow>
     log_file_position (fst (snd (snd (sftp_tail cfg env st)))) = log_file_position st"
  by (auto simp: sftp_tail_def Let_def case_prod_beta save_keeps split: sum.splits option.splits)

lemma tail_never_returns: "fst (sftp_tail cfg env st) \<noteq> Returned r"
  by (simp add: sftp_tail_def Let_def case_prod_beta split: sum.splits option.splits)


lemma sftp_call_no_session:
  assumes "use_sftp cfg" "\<not> fst (get_sftp_connection cfg env (fst (resume_position env st)))"
  shows "fst (check_log_for_deaths cfg env st) = Inr []"
    and "fst (snd (check_log_for_deaths cfg env st))
           = fst (snd (get_sftp_connection cfg env (fst (resume_position env st))))"
  using assms
  by (simp_all add: check_log_for_deaths_def check_log_body_def sftp_branch_def case_prod_beta)

lemma sftp_call_session:
  assumes "use_sftp cfg" "fst (get_sftp_connection cfg env (fst (resume_position env st)))"
  shows "fst (snd (check_log_for_deaths cfg env st))
           = fst (snd (snd (sftp_tail cfg env
               (fst (snd (get_sftp_connection cfg env (fst (resume_position env st))))))))"
    and "fst (check_log_for_deaths cfg env st) = Inr []
         \<or> fst (check_log_for_deaths cfg env st)
             = Inr (fst (snd (sftp_tail cfg env
                 (fst (snd (get_sftp_connection cfg env (fst (resume_position env st))))))))"
proof -
  let ?s = "fst (snd (get_sftp_connection cfg env (fst (resume_position env st))))"
  obtain fl d s2 l2 where t: "sftp_tail cfg env ?s = (fl, d, s2, l2)"
    by (cases "sftp_tail cfg env ?s") auto
  have nr: "\<And>r. fl \<noteq> Returned r"
    using tail_never_returns [of cfg env ?s] t by simp
  show "fst (snd (check_log_for_deaths cfg env st)) = fst (snd (snd (sftp_tail cfg env ?s)))"
    using assms t nr
    by (cases fl)
      (auto simp add: check_log_for_deaths_def check_log_body_def sftp_branch_def case_prod_beta
        split: exn.splits exn_class.splits)
  show "fst (check_log_for_deaths cfg env st) = Inr []
         \<or> fst (check_log_for_deaths cfg env st) = Inr (fst (snd (sftp_tail cfg env ?s)))"
    using assms t nr
    by (cases fl)
      (auto simp add: check_log_for_deaths_def check_log_body_def sftp_branch_def case_prod_beta
        split: exn.splits exn_class.splits)
qed

lemma session_again:
  assumes "sftp_client s2 = sftp_client (fst (snd (get_sftp_connection cfg env s1)))"
  shows "fst (get_sftp_connection cfg env s2) = fst (get_sftp_connection cfg env s1)"
  using assms
  by (auto simp: get_sftp_connection_def split: option.splits if_splits)


lemma sftp_call_client:
  assumes "use_sftp cfg"
  shows "sftp_client (fst (snd (check_log_for_deaths cfg env st)))
           = sftp_client (fst (snd (get_sftp_connection cfg env (fst (resume_position env st)))))"
proof (cases "fst (get_sftp_connection cfg env (fst (resume_position env st)))")
  case True
  then show ?thesis
    using sftp_call_session(1) [OF assms True] by (simp add: tail_keeps_client)
next
  case False
  then show ?thesis
    using sftp_call_no_session(2) [OF assms False] by simp
qed

lemma sftp_call_position:
  assumes "use_sftp cfg" "fst (get_sftp_connection cfg env (fst (resume_position env st)))"
    "sftp_stat env = Inr n" "sftp_read env = Inr bytes"
  shows "log_file_position (fst (snd (check_log_for_deaths cfg env st)))
           = (if 0 \<le> log_file_position (fst (resume_position env st)) then int n
              else log_file_position (fst (resume_position env st)))"
proof -
  let ?s = "fst (snd (get_sftp_connection cfg env (fst (resume_position env st))))"
  have p: "log_file_position ?s = log_file_position (fst (resume_position env st))"
    by (rule session_keeps)
  show ?thesis
    using sftp_call_session(1) [OF assms(1,2)] p
      tail_position [OF assms(3,4), of ?s cfg] tail_position_negative [of ?s cfg env]
    by (cases "0 \<le> log_file_position (fst (resume_position env st))") simp_all
qed





lemma local_exists_needed: "fst (snd (local_branch cfg env st)) \<noteq> [] \<Longrightarrow> local_exists env"
  by (auto simp: local_branch_def split: if_splits)



lemma session_established:
  assumes "SFTP_HOST cfg \<noteq> []" "SFTP_USERNAME cfg \<noteq> []" "SFTP_PASSWORD cfg \<noteq> []"
    "py_int (SFTP_PORT cfg) \<noteq> None" "sftp_connect_error env = None"
  shows "fst (get_sftp_connection cfg env st)"
  using assms by (auto simp: get_sftp_connection_def split: option.splits)

lemma tail_empty_file:
  assumes "sftp_stat env = Inr 0" "0 < log_file_position st"
  shows "fst (snd (snd (sftp_tail cfg env st))) = st\<lparr>log_file_position := 0\<rparr>"
  using assms by (simp add: sftp_tail_def Let_def)


section \<open>The log tailer on examples, and the choice of the source\<close>

lemma drowned_in_vocabulary: "''drowned'' \<in> set death_keywords"
  by (simp add: death_keywords_def)

lemma match_name_drowned: "match_name ''Steve drowned''"
proof -
  have "match_keywords ''drowned''"
    by (rule match_keywordsI [OF drowned_in_vocabulary]) (simp add: match_keyword_def)
  moreover have "takeWhile is_word_char ''Steve drowned'' = ''Steve''"
    "dropWhile is_word_char ''Steve drowned'' = '' drowned''"
    by (simp_all add: is_word_char_def is_digit_def is_upper_def is_lower_def)
  ultimately show ?thesis
    by (simp add: match_name_def del: takeWhile.simps dropWhile.simps)
qed

lemma search_drowned: "death_pattern_search ''[00:00:01] [main/INFO]: Steve drowned''"
  by (simp add: match_name_drowned)

lemma search_ok_line: "\<not> death_pattern_search ''[ok]''" "\<not> death_pattern_search ''k]''"
  by simp_all

lemma strip_drowned: "py_strip ''Steve drowned'' = ''Steve drowned''"
  by (simp add: py_strip_def is_space_def)

lemma parse_rotated_lines:
  "parse_death_messages [''[00:00:01] [main/INFO]: Steve drowned'', ''[ok]''] = [''Steve drowned'']"
  by (simp add: parse_death_messages_def parse_line_def py_slice_from_def
      search_drowned search_ok_line strip_drowned del: death_pattern_search.simps)

lemma parse_tail_piece: "parse_death_messages [''k]''] = []"
  by (simp add: parse_death_messages_def parse_line_def search_ok_line
      del: death_pattern_search.simps)

lemma split_rotated_log:
  "py_split (CHR 0x0A) rotated_log = [''[00:00:01] [main/INFO]: Steve drowned'', ''[ok]'']"
  by (simp add: rotated_log_def)


lemma rotated_log_tail: "drop 40 rotated_log = ''k]''"
  by (simp add: rotated_log_def)

lemma parse_rotated_log:
  "parse_death_messages (py_split (CHR 0x0A) rotated_log) = [''Steve drowned'']"
  by (simp only: split_rotated_log parse_rotated_lines)

lemmas tail_call_defs =
  check_log_for_deaths_def resume_position_def load_log_position_def use_sftp_def
  check_log_body_def sftp_branch_def get_sftp_connection_def sftp_tail_def save_log_position_def
  example_config_def quiet_env_def rotated_env_def initial_state_def stale_state_def Let_def

lemma py_int_40: "py_int (py_strip ''40'') = Some 40"
  by (simp add: py_int_eval py_strip_def is_space_def)

lemma py_str_40: "py_str 40 = ''40''" "py_str 42 = ''42''"
  by (simp_all add: py_str_def str_nat.simps)


lemma call_on_empty_file:
  "check_log_for_deaths example_config quiet_env stale_state
     = (Inr [], stale_state\<lparr>log_file_position := 0\<rparr>,
        [(INFO, ''[INFO] Log file rotated, resetting position'')])"
  by (simp add: tail_call_defs)

lemma call_after_empty_file:
  "check_log_for_deaths example_config rotated_env (stale_state\<lparr>log_file_position := 0\<rparr>)
     = (Inr [],
        stale_state\<lparr>log_file_position := 42, position_file := Some ''42''\<rparr>,
        [(INFO, ''[INFO] Resumed from saved log position: 40'')])"
  by (simp add: tail_call_defs py_int_40 py_str_40 rotated_log_tail parse_tail_piece)

text \<open>
  Claim C3 fails on the code. With the position 40 in memory and in the position file, a
  call that finds the rotated remote log empty sets the position in memory to 0 and saves
  nothing. The next call, finding the new log 42 bytes long, reloads 40 from the position
  file, reads the last two bytes only and returns no event, while the new log holds a
  death message in its first line: the read after the reset does not start at byte 0.
\<close>

theorem rotation_to_empty_file_skips_new_log:
  "check_log_for_deaths example_config quiet_env stale_state
     = (Inr [], stale_state\<lparr>log_file_position := 0\<rparr>,
        [(INFO, ''[INFO] Log file rotated, resetting position'')])
   \<and> check_log_for_deaths example_config rotated_env (stale_state\<lparr>log_file_position := 0\<rparr>)
     = (Inr [],
        stale_state\<lparr>log_file_position := 42, position_file := Some ''42''\<rparr>,
        [(INFO, ''[INFO] Resumed from saved log position: 40'')])
   \<and> parse_death_messages (py_split (CHR 0x0A) rotated_log) = [''Steve drowned'']"
  using call_on_empty_file call_after_empty_file parse_rotated_log by simp

theorem rotation_to_empty_file_witness:
  "fst (check_log_for_deaths example_config rotated_env
         (fst (snd (check_log_for_deaths example_config quiet_env stale_state)))) = Inr []"
  using rotation_to_empty_file_skips_new_log by simp


lemma example_session:
  "use_sftp example_config" "SFTP_PASSWORD example_config \<noteq> []"
  "py_int (SFTP_PORT example_config) \<noteq> None"
  by (simp_all add: use_sftp_def example_config_def py_int_22)

lemma stale_load: "fst (load_log_position rotated_env stale_state) = 40"
  by (simp add: load_log_position_def rotated_env_def quiet_env_def stale_state_def py_int_40)

lemma ignore_local_load:
  "load_log_position (env\<lparr>local_exists := a, local_getsize := b, local_read := c\<rparr>) st
     = load_log_position env st"
  by (simp add: load_log_position_def cong: option.case_cong)

lemma ignore_local_resume:
  "resume_position (env\<lparr>local_exists := a, local_getsize := b, local_read := c\<rparr>) st
     = resume_position env st"
  by (simp add: resume_position_def ignore_local_load)

lemma ignore_local_save:
  "save_log_position p (env\<lparr>local_exists := a, local_getsize := b, local_read := c\<rparr>) st
     = save_log_position p env st"
  by (simp add: save_log_position_def)

lemma ignore_local_session:
  "get_sftp_connection (cfg\<lparr>LOG_FILE_PATH := path\<rparr>)
      (env\<lparr>local_exists := a, local_getsize := b, local_read := c\<rparr>) st
     = get_sftp_connection cfg env st"
  by (simp add: get_sftp_connection_def cong: option.case_cong if_cong)

lemma ignore_local_tail:
  "sftp_tail (cfg\<lparr>LOG_FILE_PATH := path\<rparr>)
      (env\<lparr>local_exists := a, local_getsize := b, local_read := c\<rparr>) st
     = sftp_tail cfg env st"
  by (simp add: sftp_tail_def ignore_local_save cong: option.case_cong sum.case_cong if_cong)

lemma ignore_local_branch:
  "sftp_branch (cfg\<lparr>LOG_FILE_PATH := path\<rparr>)
      (env\<lparr>local_exists := a, local_getsize := b, local_read := c\<rparr>) st
     = sftp_branch cfg env st"
  by (auto simp: sftp_branch_def ignore_local_session ignore_local_tail
      split: prod.splits flow.splits exn.splits exn_class.splits)

lemma use_sftp_ignores:
  "use_sftp (cfg\<lparr>LOG_FILE_PATH := path\<rparr>) = use_sftp cfg"
  "use_sftp (cfg\<lparr>SFTP_PASSWORD := pw\<rparr>) = use_sftp cfg"
  by (simp_all add: use_sftp_def)

lemma ignore_local_call:
  assumes "use_sftp cfg"
  shows "check_log_for_deaths (cfg\<lparr>LOG_FILE_PATH := path\<rparr>)
      (env\<lparr>local_exists := a, local_getsize := b, local_read := c\<rparr>) st
     = check_log_for_deaths cfg env st"
  using assms
  by (simp add: check_log_for_deaths_def check_log_body_def use_sftp_ignores
      ignore_local_resume ignore_local_branch)

lemma no_secret_no_session:
  "SFTP_PASSWORD cfg = [] \<Longrightarrow> \<not> fst (get_sftp_connection cfg env st)"
  by (simp add: get_sftp_connection_def)

text \<open>
  Claim C10: whether the remote log is used does not depend on the secret; when the remote
  host, user name and path are configured, the result of check_log_for_deaths depends
  neither on the local log path nor on the local file; and when no session is to be had,
  in particular without the secret, the call returns the empty list.
\<close>

theorem remote_mode_ignores_local_file:
  "use_sftp (cfg\<lparr>SFTP_PASSWORD := pw\<rparr>) = use_sftp cfg
   \<and> (use_sftp cfg \<longrightarrow>
        check_log_for_deaths (cfg\<lparr>LOG_FILE_PATH := path\<rparr>)
          (env\<lparr>local_exists := a, local_getsize := b, local_read := c\<rparr>) st
        = check_log_for_deaths cfg env st)
   \<and> (use_sftp cfg \<and> \<not> fst (get_sftp_connection cfg env (fst (resume_position env st)))
        \<longrightarrow> fst (check_log_for_deaths cfg env st) = Inr [])
   \<and> (use_sftp cfg \<and> SFTP_PASSWORD cfg = [] \<longrightarrow> fst (check_log_for_deaths cfg env st) = Inr [])"
proof -
  have a: "use_sftp cfg \<and> \<not> fst (get_sftp_connection cfg env (fst (resume_position env st)))
        \<longrightarrow> fst (check_log_for_deaths cfg env st) = Inr []"
    using sftp_call_no_session(1) [of cfg env st] by blast
  have b: "use_sftp cfg \<and> SFTP_PASSWORD cfg = [] \<longrightarrow> fst (check_log_for_deaths cfg env st) = Inr []"
    using a no_secret_no_session [of cfg env "fst (resume_position env st)"] by blast
  show ?thesis
    using a b ignore_local_call [where cfg = cfg and path = path and env = env and a = a
        and b = b and c = c and st = st] use_sftp_ignores(2) [where cfg = cfg and pw = pw]
    by blast
qed

lemma no_secret_facts:
  "use_sftp no_secret_config" "SFTP_PASSWORD no_secret_config = []"
  "LOG_FILE_PATH no_secret_config \<noteq> []"
  by (simp_all add: no_secret_config_def example_config_def use_sftp_def)

theorem remote_mode_ignores_local_file_witness:
  "use_sftp no_secret_config
   \<and> SFTP_PASSWORD no_secret_config = []
   \<and> LOG_FILE_PATH no_secret_config \<noteq> []
   \<and> fst (check_log_for_deaths no_secret_config local_log_env initial_state) = Inr []"
  using no_secret_facts
    remote_mode_ignores_local_file [where cfg = no_secret_config and env = local_log_env
      and st = initial_state]
  by simp

section \<open>Two calls in a row, and the position restored from the file\<close>












lemma call_depends_on_resumed:
  assumes "fst (resume_position env a) = fst (resume_position env b)"
  shows "fst (check_log_for_deaths cfg env a) = fst (check_log_for_deaths cfg env b)"
    and "fst (snd (check_log_for_deaths cfg env a)) = fst (snd (check_log_for_deaths cfg env b))"
proof -
  obtain fl d s2 l2 where t: "check_log_body cfg env (fst (resume_position env b)) = (fl, d, s2, l2)"
    by (cases "check_log_body cfg env (fst (resume_position env b))") auto
  show "fst (check_log_for_deaths cfg env a) = fst (check_log_for_deaths cfg env b)"
    using assms t by (cases fl) (simp_all add: check_log_for_deaths_def case_prod_beta)
  show "fst (snd (check_log_for_deaths cfg env a)) = fst (snd (check_log_for_deaths cfg env b))"
    using assms t by (cases fl) (simp_all add: check_log_for_deaths_def case_prod_beta)
qed

lemma resume_loaded:
  assumes "log_file_position st = 0"
  shows "fst (resume_position env (st\<lparr>log_file_position := fst (load_log_position env st)\<rparr>))
           = fst (resume_position env st)"
proof (cases "fst (load_log_position env st) = 0")
  case True
  then have "st\<lparr>log_file_position := fst (load_log_position env st)\<rparr> = st"
    using assms by simp
  then show ?thesis by simp
next
  case False
  then show ?thesis
    using assms by (simp add: resume_position_def Let_def case_prod_beta)
qed

lemma tail_reads:
  assumes "sftp_stat env = Inr n" "sftp_read env = Inr bytes" "sftp_close_error env = None"
    "0 \<le> log_file_position st" "log_file_position st < int n"
  shows "fst (sftp_tail cfg env st) = Completed"
    and "fst (snd (sftp_tail cfg env st)) = events_between (log_file_position st) n bytes"
  using assms by (simp_all add: sftp_tail_def Let_def case_prod_beta events_between_def)

lemma remote_call_reads:
  assumes "remote_source cfg env n bytes"
    "0 \<le> log_file_position (fst (resume_position env st))"
    "log_file_position (fst (resume_position env st)) < int n"
  shows "fst (check_log_for_deaths cfg env st)
           = Inr (events_between (log_file_position (fst (resume_position env st))) n bytes)"
    and "log_file_position (fst (snd (check_log_for_deaths cfg env st))) = int n"
proof -
  let ?sa = "fst (resume_position env st)"
  let ?sg = "fst (snd (get_sftp_connection cfg env ?sa))"
  have u: "use_sftp cfg" and s: "sftp_stat env = Inr n" and rd: "sftp_read env = Inr bytes"
    and cl: "sftp_close_error env = None"
    using assms(1) by (simp_all add: remote_source_def remote_session_def)
  have g: "fst (get_sftp_connection cfg env ?sa)"
    using assms(1)
    by (simp add: remote_source_def remote_session_def use_sftp_def session_established)
  have p: "log_file_position ?sg = log_file_position ?sa"
    by (rule session_keeps)
  obtain fl d s2 l2 where t: "sftp_tail cfg env ?sg = (fl, d, s2, l2)"
    by (cases "sftp_tail cfg env ?sg") auto
  have fl: "fl = Completed" and d: "d = events_between (log_file_position ?sa) n bytes"
    using tail_reads [OF s rd cl, of ?sg cfg] assms(2,3) p t by simp_all
  show "fst (check_log_for_deaths cfg env st) = Inr (events_between (log_file_position ?sa) n bytes)"
    using u g t fl d
    by (simp add: check_log_for_deaths_def check_log_body_def sftp_branch_def case_prod_beta)
  show "log_file_position (fst (snd (check_log_for_deaths cfg env st))) = int n"
    using sftp_call_position [OF u g s rd] assms(2) by simp
qed

lemma empty_remote_file:
  assumes "remote_session cfg env" "sftp_stat env = Inr 0" "0 < log_file_position st"
  shows "log_file_position (fst (snd (check_log_for_deaths cfg env st))) = 0"
    and "position_file (fst (snd (check_log_for_deaths cfg env st))) = position_file st"
proof -
  let ?st1 = "fst (snd (check_log_for_deaths cfg env st))"
  let ?sg = "fst (snd (get_sftp_connection cfg env st))"
  have u: "use_sftp cfg"
    using assms(1) by (simp add: remote_session_def)
  have r: "fst (resume_position env st) = st"
    using assms(3) by (simp add: resume_nonzero)
  have g: "fst (get_sftp_connection cfg env (fst (resume_position env st)))"
    using assms(1) by (simp add: r remote_session_def use_sftp_def session_established)
  have "?st1 = fst (snd (snd (sftp_tail cfg env ?sg)))"
    using sftp_call_session(1) [OF u g] by (simp add: r)
  also have "\<dots> = ?sg\<lparr>log_file_position := 0\<rparr>"
    using assms(2,3) by (simp add: tail_empty_file session_keeps)
  finally have st1: "?st1 = ?sg\<lparr>log_file_position := 0\<rparr>" .
  show "log_file_position ?st1 = 0" "position_file ?st1 = position_file st"
    by (simp_all add: st1 session_keeps)
qed

text \<open>
  Claim C9: a call of check_log_for_deaths entered with the position 0 returns what, and
  leaves the state that, the call entered with the position loaded from the position file
  does; against a remote source of \<open>n\<close> bytes, with a loaded position \<open>p\<close> between 0 and \<open>n\<close>,
  it returns the events of the bytes from \<open>p\<close> on, not from 0 on, and leaves the position
  \<open>n\<close>. And a call entered with a positive position that finds the remote log empty leaves
  the position 0 and the position file as it was, so that the call after it returns the
  events of the bytes from the stale saved position on.
\<close>

theorem stale_position_restored:
  "(log_file_position st = 0 \<longrightarrow>
      fst (check_log_for_deaths cfg env st)
        = fst (check_log_for_deaths cfg env (st\<lparr>log_file_position := fst (load_log_position env st)\<rparr>))
      \<and> fst (snd (check_log_for_deaths cfg env st))
        = fst (snd (check_log_for_deaths cfg env
                 (st\<lparr>log_file_position := fst (load_log_position env st)\<rparr>))))
   \<and> (log_file_position st = 0 \<and> remote_source cfg env n bytes
        \<and> 0 < fst (load_log_position env st) \<and> fst (load_log_position env st) < int n
      \<longrightarrow> fst (check_log_for_deaths cfg env st)
            = Inr (events_between (fst (load_log_position env st)) n bytes)
        \<and> log_file_position (fst (snd (check_log_for_deaths cfg env st))) = int n)
   \<and> (0 < log_file_position st \<and> remote_session cfg env \<and> sftp_stat env = Inr 0
      \<longrightarrow> log_file_position (fst (snd (check_log_for_deaths cfg env st))) = 0
        \<and> position_file (fst (snd (check_log_for_deaths cfg env st))) = position_file st
        \<and> (remote_source cfg env' n bytes
             \<and> 0 < fst (load_log_position env' st) \<and> fst (load_log_position env' st) < int n
           \<longrightarrow> fst (check_log_for_deaths cfg env' (fst (snd (check_log_for_deaths cfg env st))))
                 = Inr (events_between (fst (load_log_position env' st)) n bytes)))"
proof -
  have reload: "fst (check_log_for_deaths cfg e s)
            = Inr (events_between (fst (load_log_position e s)) n bytes)
        \<and> log_file_position (fst (snd (check_log_for_deaths cfg e s))) = int n"
    if "log_file_position s = 0" "remote_source cfg e n bytes"
      "0 < fst (load_log_position e s)" "fst (load_log_position e s) < int n" for e s
  proof -
    have "log_file_position (fst (resume_position e s)) = fst (load_log_position e s)"
      using that(1) by (rule resume_zero)
    then show ?thesis
      using remote_call_reads [OF that(2), of s] that(3,4) by simp
  qed
  have a: "log_file_position st = 0 \<longrightarrow>
      fst (check_log_for_deaths cfg env st)
        = fst (check_log_for_deaths cfg env (st\<lparr>log_file_position := fst (load_log_position env st)\<rparr>))
      \<and> fst (snd (check_log_for_deaths cfg env st))
        = fst (snd (check_log_for_deaths cfg env
                 (st\<lparr>log_file_position := fst (load_log_position env st)\<rparr>)))"
  proof
    assume z: "log_file_position st = 0"
    note e = resume_loaded [OF z, where env = env, symmetric]
    show "fst (check_log_for_deaths cfg env st)
        = fst (check_log_for_deaths cfg env (st\<lparr>log_file_position := fst (load_log_position env st)\<rparr>))
      \<and> fst (snd (check_log_for_deaths cfg env st))
        = fst (snd (check_log_for_deaths cfg env
                 (st\<lparr>log_file_position := fst (load_log_position env st)\<rparr>)))"
      using call_depends_on_resumed(1) [OF e, where cfg = cfg]
        call_depends_on_resumed(2) [OF e, where cfg = cfg]
      by simp
  qed
  have b: "log_file_position st = 0 \<and> remote_source cfg env n bytes
        \<and> 0 < fst (load_log_position env st) \<and> fst (load_log_position env st) < int n
      \<longrightarrow> fst (check_log_for_deaths cfg env st)
            = Inr (events_between (fst (load_log_position env st)) n bytes)
        \<and> log_file_position (fst (snd (check_log_for_deaths cfg env st))) = int n"
    using reload [of st env] by blast
  have c: "0 < log_file_position st \<and> remote_session cfg env \<and> sftp_stat env = Inr 0
      \<longrightarrow> log_file_position (fst (snd (check_log_for_deaths cfg env st))) = 0
        \<and> position_file (fst (snd (check_log_for_deaths cfg env st))) = position_file st
        \<and> (remote_source cfg env' n bytes
             \<and> 0 < fst (load_log_position env' st) \<and> fst (load_log_position env' st) < int n
           \<longrightarrow> fst (check_log_for_deaths cfg env' (fst (snd (check_log_for_deaths cfg env st))))
                 = Inr (events_between (fst (load_log_position env' st)) n bytes))"
  proof
    assume h: "0 < log_file_position st \<and> remote_session cfg env \<and> sftp_stat env = Inr 0"
    let ?st1 = "fst (snd (check_log_for_deaths cfg env st))"
    have p0: "log_file_position ?st1 = 0" and pf: "position_file ?st1 = position_file st"
      using h empty_remote_file [where cfg = cfg and env = env and st = st] by simp_all
    have ld: "load_log_position env' ?st1 = load_log_position env' st"
      using load_depends [OF pf, of env'] by simp
    show "log_file_position ?st1 = 0 \<and> position_file ?st1 = position_file st
        \<and> (remote_source cfg env' n bytes
             \<and> 0 < fst (load_log_position env' st) \<and> fst (load_log_position env' st) < int n
           \<longrightarrow> fst (check_log_for_deaths cfg env' ?st1)
                 = Inr (events_between (fst (load_log_position env' st)) n bytes))"
      using p0 pf reload [of ?st1 env'] ld by simp
  qed
  show ?thesis
    using a b c by blast
qed

lemma match_name_alex: "match_name ''Alex drowned''"
proof -
  have "match_keywords ''drowned''"
    by (rule match_keywordsI [OF drowned_in_vocabulary]) (simp add: match_keyword_def)
  moreover have "takeWhile is_word_char ''Alex drowned'' = ''Alex''"
    "dropWhile is_word_char ''Alex drowned'' = '' drowned''"
    by (simp_all add: is_word_char_def is_digit_def is_upper_def is_lower_def)
  ultimately show ?thesis
    by (simp add: match_name_def del: takeWhile.simps dropWhile.simps)
qed

lemma search_alex: "death_pattern_search ''[00:00:02] [main/INFO]: Alex drowned''"
  by (simp add: match_name_alex)

lemma strip_alex: "py_strip ''Alex drowned'' = ''Alex drowned''"
  by (simp add: py_strip_def is_space_def)

lemma parse_grown_tail:
  "parse_death_messages [''k]'', ''[00:00:02] [main/INFO]: Alex drowned''] = [''Alex drowned'']"
  by (simp add: parse_death_messages_def parse_line_def py_slice_from_def
      search_alex search_ok_line strip_alex del: death_pattern_search.simps)

lemma parse_grown_lines:
  "parse_death_messages [''[00:00:01] [main/INFO]: Steve drowned'', ''[ok]'',
       ''[00:00:02] [main/INFO]: Alex drowned'']
     = [''Steve drowned'', ''Alex drowned'']"
  by (simp add: parse_death_messages_def parse_line_def py_slice_from_def
      search_drowned search_alex search_ok_line strip_drowned strip_alex
      del: death_pattern_search.simps)

lemma grown_log_length: "length grown_log = 79"
  by (simp add: grown_log_def rotated_log_def)

lemma events_from_stale: "events_between 40 79 grown_log = [''Alex drowned'']"
proof -
  have "take (nat (int 79 - 40)) (drop (nat 40) grown_log)
          = ''k]'' @ [CHR 0x0A] @ ''[00:00:02] [main/INFO]: Alex drowned''"
    by (simp add: grown_log_def rotated_log_def)
  moreover have "py_split (CHR 0x0A) (''k]'' @ [CHR 0x0A] @ ''[00:00:02] [main/INFO]: Alex drowned'')
          = [''k]'', ''[00:00:02] [main/INFO]: Alex drowned'']"
    by simp
  ultimately show ?thesis
    by (simp only: events_between_def parse_grown_tail)
qed

lemma events_from_start:
  "events_between 0 79 grown_log = [''Steve drowned'', ''Alex drowned'']"
proof -
  have "take (nat (int 79 - 0)) (drop (nat 0) grown_log) = grown_log"
    by (simp add: grown_log_length)
  moreover have "py_split (CHR 0x0A) grown_log
          = [''[00:00:01] [main/INFO]: Steve drowned'', ''[ok]'',
             ''[00:00:02] [main/INFO]: Alex drowned'']"
    by (simp add: grown_log_def rotated_log_def)
  ultimately show ?thesis
    by (simp only: events_between_def parse_grown_lines)
qed

lemma grown_source:
  "remote_session example_config quiet_env"
  "sftp_stat quiet_env = Inr 0"
  "remote_source example_config grown_env 79 grown_log"
  by (simp_all add: remote_source_def remote_session_def example_session
      grown_env_def quiet_env_def)

lemma grown_load:
  "fst (load_log_position grown_env stale_state) = 40"
  "fst (load_log_position grown_env (stale_state\<lparr>log_file_position := 0\<rparr>)) = 40"
  by (simp_all add: load_log_position_def grown_env_def quiet_env_def stale_state_def py_int_40)

lemma stale_facts:
  "0 < log_file_position stale_state" "position_file stale_state = Some ''40''"
  "log_file_position (stale_state\<lparr>log_file_position := 0\<rparr>) = 0"
  by (simp_all add: stale_state_def)

theorem stale_position_restored_witness:
  "remote_session example_config quiet_env
   \<and> sftp_stat quiet_env = Inr 0
   \<and> remote_source example_config grown_env 79 grown_log
   \<and> fst (load_log_position grown_env stale_state) = 40
   \<and> events_between 0 79 grown_log = [''Steve drowned'', ''Alex drowned'']
   \<and> fst (check_log_for_deaths example_config grown_env (stale_state\<lparr>log_file_position := 0\<rparr>))
       = Inr [''Alex drowned'']
   \<and> log_file_position (fst (snd (check_log_for_deaths example_config grown_env
         (stale_state\<lparr>log_file_position := 0\<rparr>)))) = 79
   \<and> log_file_position (fst (snd (check_log_for_deaths example_config quiet_env stale_state))) = 0
   \<and> position_file (fst (snd (check_log_for_deaths example_config quiet_env stale_state)))
       = Some ''40''
   \<and> fst (check_log_for_deaths example_config grown_env
            (fst (snd (check_log_for_deaths example_config quiet_env stale_state))))
       = Inr [''Alex drowned'']"
proof -
  have a: "fst (check_log_for_deaths example_config grown_env (stale_state\<lparr>log_file_position := 0\<rparr>))
       = Inr [''Alex drowned'']
     \<and> log_file_position (fst (snd (check_log_for_deaths example_config grown_env
         (stale_state\<lparr>log_file_position := 0\<rparr>)))) = 79"
    using grown_source grown_load stale_facts events_from_stale
      stale_position_restored [where st = "stale_state\<lparr>log_file_position := 0\<rparr>"
        and cfg = example_config and env = grown_env and n = 79 and bytes = grown_log,
        THEN conjunct2, THEN conjunct1]
    by simp
  have b: "log_file_position (fst (snd (check_log_for_deaths example_config quiet_env stale_state))) = 0
     \<and> position_file (fst (snd (check_log_for_deaths example_config quiet_env stale_state)))
         = Some ''40''
     \<and> fst (check_log_for_deaths example_config grown_env
            (fst (snd (check_log_for_deaths example_config quiet_env stale_state))))
         = Inr [''Alex drowned'']"
    using grown_source grown_load stale_facts events_from_stale
      stale_position_restored [where st = stale_state and cfg = example_config
        and env = quiet_env and env' = grown_env and n = 79 and bytes = grown_log,
        THEN conjunct2, THEN conjunct2]
    by simp
  show ?thesis
    using a b grown_source grown_load(1) events_from_start by simp
qed

end
